theory Spec2Isabelle
  imports Main "HOL-Library.Word" "HOL-Library.Sublist" "HOL-Library.AList"
    "HOL-Library.List_Lexorder" "HOL-Library.Product_Lexorder"
begin

section \<open>The MQTT backend of the gateway bridge\<close>

text \<open>
  A shallow embedding of \<^verbatim>\<open>Backend\<close> (package mqtt, second half of
  \<^verbatim>\<open>src/internal/backend/basicstation/gateway.go\<close>). The Go struct is a record; every
  method is a function that takes the world (the struct, the trace of what the method did
  to the outside, and the answers the outside gives) and returns the world it leaves. The
  broker client, the authentication strategy, the templates and the codec are libraries:
  their answers are parameters of the model.
\<close>

subsection \<open>Data\<close>

type_synonym byte = "8 word"

text \<open>\<^verbatim>\<open>lorawan.EUI64\<close> is \<^verbatim>\<open>[8]byte\<close>, \<^verbatim>\<open>uuid.UUID\<close> is \<^verbatim>\<open>[16]byte\<close>.\<close>

type_synonym EUI64 = "byte list"

text \<open>\<^verbatim>\<open>time.Duration\<close>: nanoseconds.\<close>

type_synonym Duration = int

definition Second :: Duration where
  "Second = 1000000000"

text \<open>\<^verbatim>\<open>errors.New(msg)\<close> and \<^verbatim>\<open>errors.Wrap(err, msg)\<close> of pkg/errors.\<close>

datatype error = errors_New string | errors_Wrap error string

text \<open>
  A \<^verbatim>\<open>paho.Token\<close> as the code reads it: what \<^verbatim>\<open>token.Wait()\<close> returns and
  what \<^verbatim>\<open>token.Error()\<close> returns.
\<close>

record paho_Token =
  Wait :: bool
  Error :: "error option"

text \<open>\<^verbatim>\<open>paho.Message\<close>: the topic and the payload of an inbound message.\<close>

record Message =
  Topic :: string
  Payload :: "byte list"

text \<open>The protocol messages of chirpstack-api, with the fields the backend reads.\<close>

record DownlinkTXInfo =
  TXInfo_GatewayId :: "byte list"
  Frequency :: "32 word"
  Power :: "32 word"

record DownlinkFrameItem =
  Item_PhyPayload :: "byte list"
  Item_TxInfo :: "DownlinkTXInfo option"

record DownlinkFrame =
  PhyPayload :: "byte list"
  TxInfo :: "DownlinkTXInfo option"
  DownlinkId :: "byte list"
  Items :: "DownlinkFrameItem option list"
  GatewayId :: "byte list"

record GatewayConfiguration =
  Config_GatewayId :: "byte list"
  Version :: string

record GatewayCommandExecRequest =
  Exec_GatewayId :: "byte list"
  Command :: string
  ExecId :: "byte list"

record RawPacketForwarderCommand =
  Raw_GatewayId :: "byte list"
  RawId :: "byte list"
  Raw_Payload :: "byte list"

text \<open>The generated getters are nil-safe: on a nil receiver they return the zero value.\<close>

definition Item_GetTxInfo :: "DownlinkFrameItem option \<Rightarrow> DownlinkTXInfo option" where
  "Item_GetTxInfo x = (case x of None \<Rightarrow> None | Some i \<Rightarrow> Item_TxInfo i)"

definition TXInfo_GetGatewayId :: "DownlinkTXInfo option \<Rightarrow> byte list" where
  "TXInfo_GetGatewayId x = (case x of None \<Rightarrow> [] | Some t \<Rightarrow> TXInfo_GatewayId t)"

text \<open>
  \<^verbatim>\<open>var a [n]byte; copy(a[:], src)\<close>: the first \<open>n\<close> bytes of \<open>src\<close>, the rest of
  the array stays zero.
\<close>

definition copy_array :: "nat \<Rightarrow> byte list \<Rightarrow> byte list" where
  "copy_array n src = take n src @ replicate (n - length src) 0"

text \<open>A registered callback: a Go func value, known by its identity.\<close>

datatype handler = Handler nat

text \<open>Values of logrus fields.\<close>

datatype field = FStr string | FBytes "byte list" | FBool bool | FErr error | FQos byte

datatype level = DebugLevel | InfoLevel | WarnLevel | ErrorLevel | FatalLevel

text \<open>
  What a method does to the outside, in order: log entries, metric increments, sleeps,
  operations of the embedded \<^verbatim>\<open>sync.RWMutex\<close>, calls to the authentication strategy,
  calls to the broker client \<open>c\<close>, calls of the registered handlers, and
  \<^verbatim>\<open>os.Exit\<close> (by \<^verbatim>\<open>log.Fatal\<close>). The callback of a subscription is always
  \<^verbatim>\<open>b.handleCommand\<close> and is left out of \<open>Subscribe\<close>.
\<close>

datatype event =
    Log level "(string \<times> field) list" string
  | CounterInc string string
  | Sleep Duration
  | Lock | Unlock | RLock | RUnlock
  | AuthUpdate
  | NewClient nat
  | Connect nat
  | Disconnect nat nat
  | Subscribe nat string byte
  | Unsubscribe nat string
  | Publish nat string byte bool "byte list"
  | Call_downlinkFrameFunc handler DownlinkFrame
  | Call_gatewayConfigurationFunc handler GatewayConfiguration
  | Call_gatewayCommandExecRequestFunc handler GatewayCommandExecRequest
  | Call_rawPacketForwarderCommandFunc handler RawPacketForwarderCommand
  | OsExit nat

text \<open>
  The struct. \<open>conn\<close> is the client handle (\<open>None\<close>: nil, before the first
  \<^verbatim>\<open>connect\<close>), a func field is \<open>None\<close> when nil, \<open>gateways\<close> is
  \<^verbatim>\<open>map[lorawan.EUI64]struct{}\<close>. A template is the function
  \<^verbatim>\<open>Execute\<close> computes; \<^verbatim>\<open>unmarshal\<close> is generic in the message type and
  has one field per type it is used at; \<open>ReconnectAfter\<close> is what
  \<^verbatim>\<open>b.auth.ReconnectAfter()\<close> returns. \<open>'m\<close> is the type of outbound messages.
\<close>

record 'm Backend =
  conn :: "nat option"
  closed :: bool
  downlinkFrameFunc :: "handler option"
  gatewayConfigurationFunc :: "handler option"
  gatewayCommandExecRequestFunc :: "handler option"
  rawPacketForwarderCommandFunc :: "handler option"
  gateways :: "EUI64 \<rightharpoonup> unit"
  terminateOnConnectError :: bool
  qos :: byte
  eventTopicTemplate :: "EUI64 \<Rightarrow> string \<Rightarrow> error + string"
  commandTopicTemplate :: "EUI64 \<Rightarrow> error + string"
  marshal :: "'m \<Rightarrow> error + byte list"
  unmarshal_DownlinkFrame :: "byte list \<Rightarrow> error + DownlinkFrame"
  unmarshal_GatewayConfiguration :: "byte list \<Rightarrow> error + GatewayConfiguration"
  unmarshal_GatewayCommandExecRequest :: "byte list \<Rightarrow> error + GatewayCommandExecRequest"
  unmarshal_RawPacketForwarderCommand :: "byte list \<Rightarrow> error + RawPacketForwarderCommand"
  ReconnectAfter :: Duration

text \<open>
  The world: the struct \<open>bk\<close>, the trace, and the outside's answers. \<open>tokens n\<close> is
  the token the broker client returns for the \<open>n\<close>-th request made of it,
  \<open>auth_Update n\<close> the result of the \<open>n\<close>-th \<^verbatim>\<open>b.auth.Update\<close>; \<open>clients\<close>
  counts the clients \<^verbatim>\<open>paho.NewClient\<close> has made.
\<close>

record 'm world =
  bk :: "'m Backend"
  trace :: "event list"
  tokens :: "nat \<Rightarrow> paho_Token"
  requests :: nat
  auth_Update :: "nat \<Rightarrow> error option"
  updates :: nat
  clients :: nat

text \<open>How a call ends: it returns, it panics, or the process exits.\<close>

datatype 'a result = Return 'a | Panic | Exit

subsection \<open>Primitives\<close>

definition emit :: "event \<Rightarrow> 'm world \<Rightarrow> 'm world" where
  "emit e w = w\<lparr>trace := trace w @ [e]\<rparr>"

definition logf :: "level \<Rightarrow> (string \<times> field) list \<Rightarrow> string \<Rightarrow> 'm world \<Rightarrow> 'm world" where
  "logf l fs msg w = emit (Log l fs msg) w"

definition sleep :: "Duration \<Rightarrow> 'm world \<Rightarrow> 'm world" where
  "sleep d w = emit (Sleep d) w"

text \<open>A request to the broker client: the call is recorded, the next token is the answer.\<close>

definition request :: "event \<Rightarrow> 'm world \<Rightarrow> paho_Token \<times> 'm world" where
  "request e w = (tokens w (requests w), (emit e w)\<lparr>requests := requests w + 1\<rparr>)"

text \<open>\<^verbatim>\<open>token.Wait() && token.Error() != nil\<close>\<close>

definition failed :: "paho_Token \<Rightarrow> bool" where
  "failed token = (Wait token \<and> Error token \<noteq> None)"

text \<open>\<^verbatim>\<open>strings.HasSuffix\<close> and \<^verbatim>\<open>strings.Contains\<close>.\<close>

definition HasSuffix :: "string \<Rightarrow> string \<Rightarrow> bool" where
  "HasSuffix s suf =
     (length s \<ge> length suf \<and> drop (length s - length suf) s = suf)"

fun Contains :: "string \<Rightarrow> string \<Rightarrow> bool" where
  "Contains [] substr = (substr = [])"
| "Contains (c # s) substr = (take (length substr) (c # s) = substr \<or> Contains s substr)"

subsection \<open>Subscriptions\<close>

definition subscribeGateway :: "EUI64 \<Rightarrow> 'm world \<Rightarrow> error option result \<times> 'm world" where
  "subscribeGateway gatewayID w =
     (case commandTopicTemplate (bk w) gatewayID of
        Inl err \<Rightarrow> (Return (Some (errors_Wrap err ''execute command topic template error'')), w)
      | Inr topic \<Rightarrow>
          let w1 = logf InfoLevel [(''topic'', FStr topic), (''qos'', FQos (qos (bk w)))]
                     ''integration/mqtt: subscribing to topic'' w
          in (case conn (bk w1) of
                None \<Rightarrow> (Panic, w1)
              | Some c \<Rightarrow>
                  let (token, w2) = request (Subscribe c topic (qos (bk w1))) w1
                  in (case (Wait token, Error token) of
                        (True, Some e) \<Rightarrow> (Return (Some (errors_Wrap e ''subscribe topic error'')), w2)
                      | _ \<Rightarrow> (Return None, w2))))"

definition unsubscribeGateway :: "EUI64 \<Rightarrow> 'm world \<Rightarrow> error option result \<times> 'm world" where
  "unsubscribeGateway gatewayID w =
     (case commandTopicTemplate (bk w) gatewayID of
        Inl err \<Rightarrow> (Return (Some (errors_Wrap err ''execute command topic template error'')), w)
      | Inr topic \<Rightarrow>
          let w1 = logf InfoLevel [(''topic'', FStr topic)]
                     ''integration/mqtt: unsubscribing from topic'' w
          in (case conn (bk w1) of
                None \<Rightarrow> (Panic, w1)
              | Some c \<Rightarrow>
                  let (token, w2) = request (Unsubscribe c topic) w1
                  in (case (Wait token, Error token) of
                        (True, Some e) \<Rightarrow> (Return (Some (errors_Wrap e ''unsubscribe topic error'')), w2)
                      | _ \<Rightarrow> (Return None, w2))))"

text \<open>
  The \<^verbatim>\<open>for { ... }\<close> of \<^verbatim>\<open>SetGatewaySubscription\<close>: it ends at \<^verbatim>\<open>break\<close>, after a
  successful broker call, and never while the call fails.
\<close>

partial_function (option) SetGatewaySubscription_for ::
  "bool \<Rightarrow> EUI64 \<Rightarrow> 'm world \<Rightarrow> (unit result \<times> 'm world) option" where
  "SetGatewaySubscription_for subscribe gatewayID w =
     (if subscribe then
        (case subscribeGateway gatewayID w of
           (Return (Some err), w1) \<Rightarrow>
             SetGatewaySubscription_for subscribe gatewayID
               (sleep Second
                 (logf ErrorLevel [(''error'', FErr err), (''gateway_id'', FBytes gatewayID)]
                    ''integration/mqtt: subscribe gateway error'' w1))
         | (Return None, w1) \<Rightarrow>
             Some (Return (), w1\<lparr>bk := (bk w1)\<lparr>gateways := (gateways (bk w1))(gatewayID \<mapsto> ())\<rparr>\<rparr>)
         | (Panic, w1) \<Rightarrow> Some (Panic, w1)
         | (Exit, w1) \<Rightarrow> Some (Exit, w1))
      else
        (case unsubscribeGateway gatewayID w of
           (Return (Some err), w1) \<Rightarrow>
             SetGatewaySubscription_for subscribe gatewayID
               (sleep Second
                 (logf ErrorLevel [(''error'', FErr err), (''gateway_id'', FBytes gatewayID)]
                    ''integration/mqtt: unsubscribe gateway error'' w1))
         | (Return None, w1) \<Rightarrow>
             Some (Return (), w1\<lparr>bk := (bk w1)\<lparr>gateways := (gateways (bk w1))(gatewayID := None)\<rparr>\<rparr>)
         | (Panic, w1) \<Rightarrow> Some (Panic, w1)
         | (Exit, w1) \<Rightarrow> Some (Exit, w1)))"

text \<open>
  \<^verbatim>\<open>defer b.Unlock()\<close> runs when the method returns and when it panics.
\<close>

definition SetGatewaySubscription ::
  "bool \<Rightarrow> EUI64 \<Rightarrow> 'm world \<Rightarrow> (error option result \<times> 'm world) option" where
  "SetGatewaySubscription subscribe gatewayID w =
     (let w1 = emit Lock w;
          w2 = logf DebugLevel [(''gateway_id'', FBytes gatewayID), (''subscribe'', FBool subscribe)]
                 ''integration/mqtt: set gateway subscription called'' w1;
          ok = (gateways (bk w2) gatewayID \<noteq> None)
      in if ok = subscribe then Some (Return None, emit Unlock w2)
         else
           (case SetGatewaySubscription_for subscribe gatewayID w2 of
              None \<Rightarrow> None
            | Some (Return u, w3) \<Rightarrow> Some (Return None, emit Unlock w3)
            | Some (Panic, w3) \<Rightarrow> Some (Panic, emit Unlock w3)
            | Some (Exit, w3) \<Rightarrow> Some (Exit, w3)))"

subsection \<open>Publishing events\<close>

definition publish ::
  "EUI64 \<Rightarrow> string \<Rightarrow> (string \<times> field) list \<Rightarrow> 'm \<Rightarrow> 'm world \<Rightarrow> error option result \<times> 'm world" where
  "publish gatewayID event fs msg w =
     (case eventTopicTemplate (bk w) gatewayID event of
        Inl err \<Rightarrow> (Return (Some (errors_Wrap err ''execute event template error'')), w)
      | Inr topic \<Rightarrow>
          (case marshal (bk w) msg of
             Inl err \<Rightarrow> (Return (Some (errors_Wrap err ''marshal message error'')), w)
           | Inr bytes \<Rightarrow>
               let fs1 = AList.update ''topic'' (FStr topic) fs;
                   fs2 = AList.update ''qos'' (FQos (qos (bk w))) fs1;
                   fs3 = AList.update ''event'' (FStr event) fs2;
                   w1 = logf InfoLevel fs3 ''integration/mqtt: publishing event'' w
               in (case conn (bk w1) of
                     None \<Rightarrow> (Panic, w1)
                   | Some c \<Rightarrow>
                       let (token, w2) = request (Publish c topic (qos (bk w1)) False bytes) w1
                       in (case (Wait token, Error token) of
                             (True, Some e) \<Rightarrow> (Return (Some e), w2)
                           | _ \<Rightarrow> (Return None, w2)))))"

definition idPrefix :: "(string \<times> string) list" where
  "idPrefix = [(''up'', ''uplink_''), (''ack'', ''downlink_''), (''stats'', ''stats_''),
               (''exec'', ''exec_''), (''raw'', ''raw_'')]"

definition PublishEvent ::
  "EUI64 \<Rightarrow> string \<Rightarrow> byte list \<Rightarrow> 'm \<Rightarrow> 'm world \<Rightarrow> error option result \<times> 'm world" where
  "PublishEvent gatewayID event uid v w =
     (let w1 = emit (CounterInc ''mqttEventCounter'' event) w
      in publish gatewayID event
           [((case map_of idPrefix event of None \<Rightarrow> [] | Some p \<Rightarrow> p) @ ''id'', FBytes uid)] v w1)"

subsection \<open>Connecting\<close>

definition Update :: "'m world \<Rightarrow> error option \<times> 'm world" where
  "Update w = (auth_Update w (updates w), (emit AuthUpdate w)\<lparr>updates := updates w + 1\<rparr>)"

definition paho_NewClient :: "'m world \<Rightarrow> nat \<times> 'm world" where
  "paho_NewClient w = (clients w, (emit (NewClient (clients w)) w)\<lparr>clients := clients w + 1\<rparr>)"

definition connect :: "'m world \<Rightarrow> error option \<times> 'm world" where
  "connect w =
     (let w1 = emit Lock w;
          (r, w2) = Update w1
      in (case r of
            Some err \<Rightarrow>
              (Some (errors_Wrap err ''integration/mqtt: update authentication error''), emit Unlock w2)
          | None \<Rightarrow>
              let (c, w3) = paho_NewClient w2;
                  w4 = w3\<lparr>bk := (bk w3)\<lparr>conn := Some c\<rparr>\<rparr>;
                  (token, w5) = request (Connect c) w4
              in (case (Wait token, Error token) of
                    (True, Some e) \<Rightarrow> (Some e, emit Unlock w5)
                  | _ \<Rightarrow> (None, emit Unlock w5))))"

text \<open>\<^verbatim>\<open>err.Error()\<close>\<close>

fun Error_string :: "error \<Rightarrow> string" where
  "Error_string (errors_New msg) = msg"
| "Error_string (errors_Wrap err msg) = msg @ '': '' @ Error_string err"

text \<open>
  \<^verbatim>\<open>connectLoop\<close>: \<^verbatim>\<open>log.Fatal\<close> writes the entry and exits the process with
  status 1.
\<close>

partial_function (option) connectLoop :: "'m world \<Rightarrow> (unit result \<times> 'm world) option" where
  "connectLoop w =
     (case connect w of
        (Some err, w1) \<Rightarrow>
          if terminateOnConnectError (bk w1)
          then Some (Exit, emit (OsExit 1) (logf FatalLevel [] (Error_string err) w1))
          else connectLoop
                 (sleep (Second * 2)
                   (logf ErrorLevel [(''error'', FErr err)] ''integration/mqtt: connection error'' w1))
      | (None, w1) \<Rightarrow> Some (Return (), w1))"

definition disconnect :: "'m world \<Rightarrow> error option result \<times> 'm world" where
  "disconnect w =
     (let w1 = emit (CounterInc ''mqttDisconnectCounter'' []) w;
          w2 = emit Lock w1
      in (case conn (bk w2) of
            None \<Rightarrow> (Panic, emit Unlock w2)
          | Some c \<Rightarrow> (Return None, emit Unlock (emit (Disconnect c 250) w2))))"

definition Stop :: "'m world \<Rightarrow> error option result \<times> 'm world" where
  "Stop w =
     (let w1 = emit Lock w;
          w2 = w1\<lparr>bk := (bk w1)\<lparr>closed := True\<rparr>\<rparr>;
          w3 = emit Unlock w2
      in (case conn (bk w3) of
            None \<Rightarrow> (Panic, w3)
          | Some c \<Rightarrow> (Return None, emit (Disconnect c 250) w3)))"

text \<open>
  \<^verbatim>\<open>reconnectLoop\<close> runs in a goroutine of its own (\<^verbatim>\<open>go b.reconnectLoop()\<close>),
  beside the caller of \<^verbatim>\<open>Stop\<close>. \<open>stops n\<close> says whether that caller runs
  \<^verbatim>\<open>Stop\<close> while the loop is in its \<open>n\<close>-th \<^verbatim>\<open>time.Sleep\<close>; nothing else
  of the other goroutines is modelled.
\<close>

partial_function (option) reconnectLoop_for ::
  "(nat \<Rightarrow> bool) \<Rightarrow> nat \<Rightarrow> 'm world \<Rightarrow> (unit result \<times> 'm world) option" where
  "reconnectLoop_for stops n w =
     (if closed (bk w) then Some (Return (), w)
      else
        (case (if stops n then Stop (sleep (ReconnectAfter (bk w)) w)
               else (Return None, sleep (ReconnectAfter (bk w)) w)) of
           (Return e, w1) \<Rightarrow>
             let w2 = logf InfoLevel [] ''mqtt: re-connect triggered'' w1;
                 w3 = emit (CounterInc ''mqttReconnectCounter'' []) w2
             in (case disconnect w3 of
                   (Return e', w4) \<Rightarrow>
                     Option.bind (connectLoop w4)
                       (\<lambda>(r, w5). case r of
                           Return u \<Rightarrow> reconnectLoop_for stops (Suc n) w5
                         | Panic \<Rightarrow> Some (Panic, w5)
                         | Exit \<Rightarrow> Some (Exit, w5))
                 | (Panic, w4) \<Rightarrow> Some (Panic, w4)
                 | (Exit, w4) \<Rightarrow> Some (Exit, w4))
         | (Panic, w1) \<Rightarrow> Some (Panic, w1)
         | (Exit, w1) \<Rightarrow> Some (Exit, w1)))"

definition reconnectLoop :: "(nat \<Rightarrow> bool) \<Rightarrow> 'm world \<Rightarrow> (unit result \<times> 'm world) option" where
  "reconnectLoop stops w =
     (if ReconnectAfter (bk w) > 0 then reconnectLoop_for stops 0 w else Some (Return (), w))"

text \<open>The inner \<^verbatim>\<open>for { ... }\<close> of \<^verbatim>\<open>onConnected\<close>, for one gateway.\<close>

partial_function (option) onConnected_for ::
  "EUI64 \<Rightarrow> 'm world \<Rightarrow> (unit result \<times> 'm world) option" where
  "onConnected_for gatewayID w =
     (case subscribeGateway gatewayID w of
        (Return (Some err), w1) \<Rightarrow>
          onConnected_for gatewayID
            (sleep Second
              (logf ErrorLevel [(''error'', FErr err), (''gateway_id'', FBytes gatewayID)]
                 ''integration/mqtt: subscribe gateway error'' w1))
      | (Return None, w1) \<Rightarrow> Some (Return (), w1)
      | (Panic, w1) \<Rightarrow> Some (Panic, w1)
      | (Exit, w1) \<Rightarrow> Some (Exit, w1))"

text \<open>
  \<^verbatim>\<open>for gatewayID := range b.gateways\<close>: Go visits every key of the map once, in an
  order the runtime chooses. The choice is a rank of the identities: the keys of the map
  are visited by increasing rank, keys of equal rank by their bytes. Every order of the
  keys is the order of some rank (\<open>range_keys_any_order\<close> below).
\<close>

definition range_keys :: "(EUI64 \<Rightarrow> nat) \<Rightarrow> (EUI64 \<rightharpoonup> unit) \<Rightarrow> EUI64 list" where
  "range_keys rank m = map snd (sorted_list_of_set ((\<lambda>g. (rank g, g)) ` dom m))"

fun onConnected_range :: "EUI64 list \<Rightarrow> 'm world \<Rightarrow> (unit result \<times> 'm world) option" where
  "onConnected_range [] w = Some (Return (), w)"
| "onConnected_range (gatewayID # keys) w =
     (case onConnected_for gatewayID w of
        None \<Rightarrow> None
      | Some (Return u, w1) \<Rightarrow> onConnected_range keys w1
      | Some (Panic, w1) \<Rightarrow> Some (Panic, w1)
      | Some (Exit, w1) \<Rightarrow> Some (Exit, w1))"

definition onConnected :: "(EUI64 \<Rightarrow> nat) \<Rightarrow> 'm world \<Rightarrow> (unit result \<times> 'm world) option" where
  "onConnected rank w =
     (let w1 = emit (CounterInc ''mqttConnectCounter'' []) w;
          w2 = emit RLock w1;
          w3 = logf InfoLevel [] ''integration/mqtt: connected to mqtt broker'' w2
      in (case onConnected_range (range_keys rank (gateways (bk w3))) w3 of
            None \<Rightarrow> None
          | Some (Return u, w4) \<Rightarrow> Some (Return (), emit RUnlock w4)
          | Some (Panic, w4) \<Rightarrow> Some (Panic, emit RUnlock w4)
          | Some (Exit, w4) \<Rightarrow> Some (Exit, w4)))"

definition onConnectionLost :: "error \<Rightarrow> 'm world \<Rightarrow> 'm world" where
  "onConnectionLost err w =
     logf ErrorLevel [(''error'', FErr err)] ''mqtt: connection error''
       (emit (CounterInc ''mqttDisconnectCounter'' []) w)"

subsection \<open>Dispatching commands\<close>

definition SetDownlinkFrameFunc :: "handler option \<Rightarrow> 'm world \<Rightarrow> 'm world" where
  "SetDownlinkFrameFunc f w = w\<lparr>bk := (bk w)\<lparr>downlinkFrameFunc := f\<rparr>\<rparr>"

definition SetGatewayConfigurationFunc :: "handler option \<Rightarrow> 'm world \<Rightarrow> 'm world" where
  "SetGatewayConfigurationFunc f w = w\<lparr>bk := (bk w)\<lparr>gatewayConfigurationFunc := f\<rparr>\<rparr>"

definition SetGatewayCommandExecRequestFunc :: "handler option \<Rightarrow> 'm world \<Rightarrow> 'm world" where
  "SetGatewayCommandExecRequestFunc f w = w\<lparr>bk := (bk w)\<lparr>gatewayCommandExecRequestFunc := f\<rparr>\<rparr>"

definition SetRawPacketForwarderCommandFunc :: "handler option \<Rightarrow> 'm world \<Rightarrow> 'm world" where
  "SetRawPacketForwarderCommandFunc f w = w\<lparr>bk := (bk w)\<lparr>rawPacketForwarderCommandFunc := f\<rparr>\<rparr>"

text \<open>The backwards-compatibility step of \<^verbatim>\<open>handleDownlinkFrame\<close>.\<close>

definition legacy :: "DownlinkFrame \<Rightarrow> DownlinkFrame" where
  "legacy downlinkFrame =
     (if length (Items downlinkFrame) = 0 \<and>
         (TxInfo downlinkFrame \<noteq> None \<and> length (PhyPayload downlinkFrame) \<noteq> 0)
      then
        let df1 = downlinkFrame\<lparr>Items := Items downlinkFrame @
                    [Some \<lparr>Item_PhyPayload = PhyPayload downlinkFrame,
                           Item_TxInfo = TxInfo downlinkFrame\<rparr>]\<rparr>
        in df1\<lparr>GatewayId := TXInfo_GetGatewayId (Item_GetTxInfo (Items df1 ! 0))\<rparr>
      else downlinkFrame)"

definition handleDownlinkFrame :: "Message \<Rightarrow> 'm world \<Rightarrow> 'm world" where
  "handleDownlinkFrame msg w =
     (case unmarshal_DownlinkFrame (bk w) (Payload msg) of
        Inl err \<Rightarrow>
          logf ErrorLevel [(''topic'', FStr (Topic msg)), (''error'', FErr err)]
            ''integration/mqtt: unmarshal downlink frame error'' w
      | Inr decoded \<Rightarrow>
          let downID = copy_array 16 (DownlinkId decoded);
              downlinkFrame = legacy decoded
          in if length (Items downlinkFrame) = 0
             then logf ErrorLevel [(''downlink_id'', FBytes downID)]
                    ''integration/mqtt: downlink must have at least one item'' w
             else
               let gatewayID = copy_array 8 (GatewayId downlinkFrame);
                   w1 = logf InfoLevel [(''gateway_id'', FBytes gatewayID), (''downlink_id'', FBytes downID)]
                          ''integration/mqtt: downlink frame received'' w
               in (case downlinkFrameFunc (bk w1) of
                     None \<Rightarrow> w1
                   | Some f \<Rightarrow> emit (Call_downlinkFrameFunc f downlinkFrame) w1))"

definition handleGatewayConfiguration :: "Message \<Rightarrow> 'm world \<Rightarrow> 'm world" where
  "handleGatewayConfiguration msg w =
     (let w1 = logf InfoLevel [(''topic'', FStr (Topic msg))]
                 ''integration/mqtt: gateway configuration received'' w
      in (case unmarshal_GatewayConfiguration (bk w1) (Payload msg) of
            Inl err \<Rightarrow>
              logf ErrorLevel [(''error'', FErr err)]
                ''integration/mqtt: unmarshal gateway configuration error'' w1
          | Inr gatewayConfig \<Rightarrow>
              (case gatewayConfigurationFunc (bk w1) of
                 None \<Rightarrow> w1
               | Some f \<Rightarrow> emit (Call_gatewayConfigurationFunc f gatewayConfig) w1)))"

definition handleGatewayCommandExecRequest :: "Message \<Rightarrow> 'm world \<Rightarrow> 'm world" where
  "handleGatewayCommandExecRequest msg w =
     (case unmarshal_GatewayCommandExecRequest (bk w) (Payload msg) of
        Inl err \<Rightarrow>
          logf ErrorLevel [(''topic'', FStr (Topic msg)), (''error'', FErr err)]
            ''integration/mqtt: unmarshal gateway command execution request error'' w
      | Inr gatewayCommandExecRequest \<Rightarrow>
          let gatewayID = copy_array 8 (Exec_GatewayId gatewayCommandExecRequest);
              execID = copy_array 16 (ExecId gatewayCommandExecRequest);
              w1 = logf InfoLevel [(''gateway_id'', FBytes gatewayID), (''exec_id'', FBytes execID)]
                     ''integration/mqtt: gateway command execution request received'' w
          in (case gatewayCommandExecRequestFunc (bk w1) of
                None \<Rightarrow> w1
              | Some f \<Rightarrow> emit (Call_gatewayCommandExecRequestFunc f gatewayCommandExecRequest) w1))"

definition handleRawPacketForwarderCommand :: "Message \<Rightarrow> 'm world \<Rightarrow> 'm world" where
  "handleRawPacketForwarderCommand msg w =
     (case unmarshal_RawPacketForwarderCommand (bk w) (Payload msg) of
        Inl err \<Rightarrow>
          logf ErrorLevel [(''topic'', FStr (Topic msg)), (''error'', FErr err)]
            ''integration/mqtt: unmarshal raw packet-forwarder command error'' w
      | Inr rawPacketForwarderCommand \<Rightarrow>
          let gatewayID = copy_array 8 (Raw_GatewayId rawPacketForwarderCommand);
              rawID = copy_array 16 (RawId rawPacketForwarderCommand);
              w1 = logf InfoLevel [(''gateway_id'', FBytes gatewayID), (''raw_id'', FBytes rawID)]
                     ''integration/mqtt: raw packet-forwarder command received'' w
          in (case rawPacketForwarderCommandFunc (bk w1) of
                None \<Rightarrow> w1
              | Some f \<Rightarrow> emit (Call_rawPacketForwarderCommandFunc f rawPacketForwarderCommand) w1))"

definition handleCommand :: "Message \<Rightarrow> 'm world \<Rightarrow> 'm world" where
  "handleCommand msg w =
     (if HasSuffix (Topic msg) ''down'' \<or> Contains (Topic msg) ''command=down'' then
        handleDownlinkFrame msg (emit (CounterInc ''mqttCommandCounter'' ''down'') w)
      else if HasSuffix (Topic msg) ''config'' \<or> Contains (Topic msg) ''command=config'' then
        handleGatewayConfiguration msg (emit (CounterInc ''mqttCommandCounter'' ''config'') w)
      else if HasSuffix (Topic msg) ''exec'' \<or> Contains (Topic msg) ''command=exec'' then
        handleGatewayCommandExecRequest msg w
      else if HasSuffix (Topic msg) ''raw'' \<or> Contains (Topic msg) ''command=raw'' then
        handleRawPacketForwarderCommand msg w
      else
        logf WarnLevel [(''topic'', FStr (Topic msg))]
          ''integration/mqtt: unexpected command received'' w)"

subsection \<open>The specification's words\<close>

text \<open>
  The specification's \<open>classify\<close>: the kinds are tried in the order Downlink, Config, Exec,
  Raw; a kind accepts a topic that ends with its path suffix or contains its query
  substring. Suffix and substring are the library's \<^const>\<open>suffix\<close> and \<^const>\<open>sublist\<close>.
\<close>

datatype kind = Downlink | Config | Exec | Raw | Unknown

definition accepts :: "string \<Rightarrow> string \<Rightarrow> bool" where
  "accepts name topic = (suffix name topic \<or> sublist (''command='' @ name) topic)"

definition classify :: "string \<Rightarrow> kind" where
  "classify topic =
     (if accepts ''down'' topic then Downlink
      else if accepts ''config'' topic then Config
      else if accepts ''exec'' topic then Exec
      else if accepts ''raw'' topic then Raw
      else Unknown)"

subsection \<open>Notions for the statements\<close>

text \<open>What a method added to the trace, and the kinds of events the properties speak of.\<close>

definition since :: "'m world \<Rightarrow> 'm world \<Rightarrow> event list" where
  "since w w' = drop (length (trace w)) (trace w')"

fun is_call :: "event \<Rightarrow> bool" where
  "is_call (Call_downlinkFrameFunc f x) = True"
| "is_call (Call_gatewayConfigurationFunc f x) = True"
| "is_call (Call_gatewayCommandExecRequestFunc f x) = True"
| "is_call (Call_rawPacketForwarderCommandFunc f x) = True"
| "is_call e = False"

fun is_broker :: "event \<Rightarrow> bool" where
  "is_broker (Connect c) = True"
| "is_broker (Disconnect c t) = True"
| "is_broker (Subscribe c t q) = True"
| "is_broker (Unsubscribe c t) = True"
| "is_broker (Publish c t q r p) = True"
| "is_broker e = False"

fun is_Log :: "event \<Rightarrow> bool" where
  "is_Log (Log l fs m) = True"
| "is_Log e = False"

fun is_CounterInc :: "event \<Rightarrow> bool" where
  "is_CounterInc (CounterInc n l) = True"
| "is_CounterInc e = False"

fun is_Sleep :: "event \<Rightarrow> bool" where
  "is_Sleep (Sleep d) = True"
| "is_Sleep e = False"

fun is_lock :: "event \<Rightarrow> bool" where
  "is_lock Lock = True"
| "is_lock RLock = True"
| "is_lock e = False"

text \<open>The payload of a message does not decode into the variant of its topic's kind.\<close>

definition decode_fails :: "'m Backend \<Rightarrow> Message \<Rightarrow> bool" where
  "decode_fails b msg =
     (case classify (Topic msg) of
        Downlink \<Rightarrow> isl (unmarshal_DownlinkFrame b (Payload msg))
      | Config \<Rightarrow> isl (unmarshal_GatewayConfiguration b (Payload msg))
      | Exec \<Rightarrow> isl (unmarshal_GatewayCommandExecRequest b (Payload msg))
      | Raw \<Rightarrow> isl (unmarshal_RawPacketForwarderCommand b (Payload msg))
      | Unknown \<Rightarrow> False)"

text \<open>
  The registry after a successful change, and the request the change makes of the broker
  client \<open>c\<close>.
\<close>

definition registry_after :: "bool \<Rightarrow> EUI64 \<Rightarrow> (EUI64 \<rightharpoonup> unit) \<Rightarrow> (EUI64 \<rightharpoonup> unit)" where
  "registry_after s g m = (if s then m(g \<mapsto> ()) else m(g := None))"

definition broker_call :: "bool \<Rightarrow> nat \<Rightarrow> string \<Rightarrow> byte \<Rightarrow> event" where
  "broker_call s c topic q = (if s then Subscribe c topic q else Unsubscribe c topic)"

text \<open>\<^verbatim>\<open>SetGatewaySubscription(true, g)\<close> called twice in a row.\<close>

definition subscribe_twice :: "EUI64 \<Rightarrow> 'm world \<Rightarrow> (error option result \<times> 'm world) option" where
  "subscribe_twice g w =
     (case SetGatewaySubscription True g w of
        None \<Rightarrow> None
      | Some (Return None, w1) \<Rightarrow> SetGatewaySubscription True g w1
      | Some (r, w1) \<Rightarrow> Some (r, w1))"

text \<open>
  The world in which \<^verbatim>\<open>connectLoop\<close> makes its next attempt when \<^verbatim>\<open>connect\<close> failed
  in \<open>w\<close>: the error is logged and the loop has slept two seconds. The events that count
  attempts and waits: \<^verbatim>\<open>connect\<close> calls \<^verbatim>\<open>b.auth.Update\<close> once, first thing under
  the lock.
\<close>

definition connect_retry :: "'m world \<Rightarrow> 'm world" where
  "connect_retry w =
     (case connect w of
        (Some err, w1) \<Rightarrow>
          sleep (Second * 2)
            (logf ErrorLevel [(''error'', FErr err)] ''integration/mqtt: connection error'' w1)
      | (None, w1) \<Rightarrow> w1)"

definition is_attempt :: "event \<Rightarrow> bool" where
  "is_attempt e = (e = AuthUpdate \<or> is_Sleep e)"

text \<open>
  The broker refuses \<open>k\<close> requests and accepts the next, for each \<open>k\<close> of the list in
  turn, from its \<open>n\<close>-th request on; and what a pass over \<open>keys\<close> then asks of the broker
  client \<open>c\<close> and sleeps: for each identity, a subscribe request and a sleep of one second
  per refusal, then the subscribe request that is accepted.
\<close>

fun accepted_after :: "(nat \<Rightarrow> paho_Token) \<Rightarrow> nat \<Rightarrow> nat list \<Rightarrow> bool" where
  "accepted_after toks n [] = True"
| "accepted_after toks n (k # ks) =
     ((\<forall>i<k. failed (toks (n + i))) \<and> \<not> failed (toks (n + k)) \<and>
      accepted_after toks (n + Suc k) ks)"

definition resubscribed :: "nat \<Rightarrow> byte \<Rightarrow> (EUI64 \<Rightarrow> string) \<Rightarrow> EUI64 list \<Rightarrow> nat list \<Rightarrow> event list" where
  "resubscribed c q topic keys ks =
     concat (map (\<lambda>(g, k). concat (replicate k [Subscribe c (topic g) q, Sleep Second]) @
                            [Subscribe c (topic g) q])
                 (zip keys ks))"

subsection \<open>A concrete backend\<close>

text \<open>
  A started backend with four handlers registered, a broker that accepts every request and
  a codec that rejects the empty payload; the theorems below are run on it.
\<close>

definition gw1 :: EUI64 where "gw1 = [1, 2, 3, 4, 5, 6, 7, 8]"
definition gw2 :: EUI64 where "gw2 = [8, 7, 6, 5, 4, 3, 2, 1]"

definition ok_token :: paho_Token where
  "ok_token = \<lparr>Wait = True, Error = None\<rparr>"

definition bad_token :: paho_Token where
  "bad_token = \<lparr>Wait = True, Error = Some (errors_New ''not connected'')\<rparr>"

definition legacy_frame :: "byte list \<Rightarrow> DownlinkFrame" where
  "legacy_frame p =
     \<lparr>PhyPayload = p,
      TxInfo = Some \<lparr>TXInfo_GatewayId = gw1, Frequency = 868100000, Power = 14\<rparr>,
      DownlinkId = [7], Items = [], GatewayId = []\<rparr>"

definition backend0 :: "byte list Backend" where
  "backend0 =
     \<lparr>conn = Some 0, closed = False,
      downlinkFrameFunc = Some (Handler 1),
      gatewayConfigurationFunc = Some (Handler 2),
      gatewayCommandExecRequestFunc = Some (Handler 3),
      rawPacketForwarderCommandFunc = Some (Handler 4),
      gateways = Map.empty,
      terminateOnConnectError = False,
      qos = 0,
      eventTopicTemplate = (\<lambda>g e. if length g = 8 then Inr (''gateway/id/event/'' @ e)
                                   else Inl (errors_New ''template: bad gateway id'')),
      commandTopicTemplate = (\<lambda>g. if g = gw1 then Inr ''gateway/0102030405060708/command/#''
                                 else if g = gw2 then Inr ''gateway/0807060504030201/command/#''
                                 else Inl (errors_New ''template: bad gateway id'')),
      marshal = (\<lambda>m. if m = [] then Inl (errors_New ''proto: nil message'') else Inr m),
      unmarshal_DownlinkFrame =
        (\<lambda>p. if p = [] then Inl (errors_New ''unexpected EOF'') else Inr (legacy_frame (tl p))),
      unmarshal_GatewayConfiguration =
        (\<lambda>p. if p = [] then Inl (errors_New ''unexpected EOF'')
             else Inr \<lparr>Config_GatewayId = gw1, Version = ''1''\<rparr>),
      unmarshal_GatewayCommandExecRequest =
        (\<lambda>p. if p = [] then Inl (errors_New ''unexpected EOF'')
             else Inr \<lparr>Exec_GatewayId = gw1, Command = ''reboot'', ExecId = p\<rparr>),
      unmarshal_RawPacketForwarderCommand =
        (\<lambda>p. if p = [] then Inl (errors_New ''unexpected EOF'')
             else Inr \<lparr>Raw_GatewayId = gw1, RawId = [], Raw_Payload = p\<rparr>),
      ReconnectAfter = 0\<rparr>"

definition world0 :: "byte list world" where
  "world0 =
     \<lparr>bk = backend0, trace = [], tokens = (\<lambda>n. ok_token), requests = 0,
      auth_Update = (\<lambda>n. None), updates = 0, clients = 1\<rparr>"

text \<open>The same backend with a broker that refuses the first two requests.\<close>

definition world1 :: "byte list world" where
  "world1 = world0\<lparr>tokens := (\<lambda>n. if n < 2 then bad_token else ok_token)\<rparr>"

text \<open>The same backend with one gateway in the registry.\<close>

definition world2 :: "byte list world" where
  "world2 = world0\<lparr>bk := backend0\<lparr>gateways := [gw1 \<mapsto> ()]\<rparr>\<rparr>"

text \<open>The same backend with two gateways in the registry, and a broker that answers \<open>toks\<close>.\<close>

definition registry_world :: "(nat \<Rightarrow> paho_Token) \<Rightarrow> byte list world" where
  "registry_world toks =
     world0\<lparr>bk := backend0\<lparr>gateways := [gw1 \<mapsto> (), gw2 \<mapsto> ()]\<rparr>, tokens := toks\<rparr>"

text \<open>The same backend with an authentication strategy that asks for a reconnect every 30 minutes.\<close>

definition rotating_world :: "byte list world" where
  "rotating_world = world0\<lparr>bk := backend0\<lparr>ReconnectAfter := 1800 * Second\<rparr>\<rparr>"

section \<open>Properties\<close>

subsection \<open>Basic facts\<close>

lemma since_emit [simp]: "since w (emit e w) = [e]"
  by (simp add: since_def emit_def)

lemma bk_emit [simp]: "bk (emit e w) = bk w"
  by (simp add: emit_def)

lemma trace_emit [simp]: "trace (emit e w) = trace w @ [e]"
  by (simp add: emit_def)

text \<open>Go's string functions compute the library's suffix and substring relations.\<close>

lemma HasSuffix_suffix: "HasSuffix s suf \<longleftrightarrow> suffix suf s"
proof
  assume "HasSuffix s suf"
  then have "s = take (length s - length suf) s @ suf"
    by (metis HasSuffix_def append_take_drop_id)
  then show "suffix suf s" by (metis suffixI)
next
  assume "suffix suf s"
  then obtain zs where "s = zs @ suf" by (auto simp: suffix_def)
  then show "HasSuffix s suf" by (simp add: HasSuffix_def)
qed

lemma take_prefix: "take (length xs) ys = xs \<longleftrightarrow> prefix xs ys"
  by (metis append_eq_conv_conj prefix_def)

lemma Contains_sublist: "Contains s substr \<longleftrightarrow> sublist substr s"
  by (induction s) (simp_all add: sublist_Cons_right take_prefix del: take_Suc_Cons)

lemma handleCommand_dispatch:
  "handleCommand msg w =
     (case classify (Topic msg) of
        Downlink \<Rightarrow> handleDownlinkFrame msg (emit (CounterInc ''mqttCommandCounter'' ''down'') w)
      | Config \<Rightarrow> handleGatewayConfiguration msg (emit (CounterInc ''mqttCommandCounter'' ''config'') w)
      | Exec \<Rightarrow> handleGatewayCommandExecRequest msg w
      | Raw \<Rightarrow> handleRawPacketForwarderCommand msg w
      | Unknown \<Rightarrow> logf WarnLevel [(''topic'', FStr (Topic msg))]
          ''integration/mqtt: unexpected command received'' w)"
  by (simp add: handleCommand_def classify_def accepts_def HasSuffix_suffix Contains_sublist)

lemma accepts_code: "accepts name topic = (HasSuffix topic name \<or> Contains topic (''command='' @ name))"
  by (simp add: accepts_def HasSuffix_suffix Contains_sublist)

subsection \<open>Topic classification\<close>

text \<open>
  C1 (amended). \<^verbatim>\<open>handleCommand\<close> dispatches on the topic as \<open>classify\<close> says: the
  kinds are tried in the order Downlink, Config, Exec, Raw, and a kind accepts a topic
  that ends with its suffix or contains its \<^verbatim>\<open>command=\<close> substring. So
  \<^verbatim>\<open>gw/1234/event/down\<close> is Downlink; \<^verbatim>\<open>devices/gw-1234/commands/config\<close> is
  Config, by its suffix alone; a topic containing \<^verbatim>\<open>command=raw\<close> is Raw when no
  earlier kind accepts it; and for an Unknown topic the only effect is one warning entry
  in the log: no handler is called and the struct is unchanged.
\<close>

theorem handleCommand_classifies:
  "handleCommand msg w =
     (case classify (Topic msg) of
        Downlink \<Rightarrow> handleDownlinkFrame msg (emit (CounterInc ''mqttCommandCounter'' ''down'') w)
      | Config \<Rightarrow> handleGatewayConfiguration msg (emit (CounterInc ''mqttCommandCounter'' ''config'') w)
      | Exec \<Rightarrow> handleGatewayCommandExecRequest msg w
      | Raw \<Rightarrow> handleRawPacketForwarderCommand msg w
      | Unknown \<Rightarrow> logf WarnLevel [(''topic'', FStr (Topic msg))]
                       ''integration/mqtt: unexpected command received'' w) \<and>
   (classify topic = Downlink \<longleftrightarrow> accepts ''down'' topic) \<and>
   (classify topic = Config \<longleftrightarrow> \<not> accepts ''down'' topic \<and> accepts ''config'' topic) \<and>
   (classify topic = Exec \<longleftrightarrow>
      \<not> accepts ''down'' topic \<and> \<not> accepts ''config'' topic \<and> accepts ''exec'' topic) \<and>
   (classify topic = Raw \<longleftrightarrow>
      \<not> accepts ''down'' topic \<and> \<not> accepts ''config'' topic \<and> \<not> accepts ''exec'' topic \<and>
      accepts ''raw'' topic) \<and>
   classify ''gw/1234/event/down'' = Downlink \<and>
   classify ''devices/gw-1234/commands/config'' = Config \<and>
   (sublist ''command=raw'' topic \<and> \<not> accepts ''down'' topic \<and> \<not> accepts ''config'' topic \<and>
      \<not> accepts ''exec'' topic \<longrightarrow> classify topic = Raw) \<and>
   (classify (Topic msg) = Unknown \<longrightarrow>
      bk (handleCommand msg w) = bk w \<and>
      since w (handleCommand msg w) =
        [Log WarnLevel [(''topic'', FStr (Topic msg))] ''integration/mqtt: unexpected command received''])"
proof -
  have ex: "classify ''gw/1234/event/down'' = Downlink"
      "classify ''devices/gw-1234/commands/config'' = Config"
    by (simp_all add: classify_def accepts_code HasSuffix_def)
  have order: "(classify topic = Downlink \<longleftrightarrow> accepts ''down'' topic)"
    "(classify topic = Config \<longleftrightarrow> \<not> accepts ''down'' topic \<and> accepts ''config'' topic)"
    "(classify topic = Exec \<longleftrightarrow>
      \<not> accepts ''down'' topic \<and> \<not> accepts ''config'' topic \<and> accepts ''exec'' topic)"
    "(classify topic = Raw \<longleftrightarrow>
      \<not> accepts ''down'' topic \<and> \<not> accepts ''config'' topic \<and> \<not> accepts ''exec'' topic \<and>
      accepts ''raw'' topic)"
    by (simp_all add: classify_def)
  have raw: "sublist ''command=raw'' topic \<and> \<not> accepts ''down'' topic \<and> \<not> accepts ''config'' topic \<and>
      \<not> accepts ''exec'' topic \<longrightarrow> classify topic = Raw"
    by (simp add: classify_def) (simp add: accepts_def)
  have unknown: "classify (Topic msg) = Unknown \<longrightarrow>
      bk (handleCommand msg w) = bk w \<and>
      since w (handleCommand msg w) =
        [Log WarnLevel [(''topic'', FStr (Topic msg))] ''integration/mqtt: unexpected command received'']"
    by (simp add: handleCommand_dispatch logf_def)
  have dispatch: "handleCommand msg w =
     (case classify (Topic msg) of
        Downlink \<Rightarrow> handleDownlinkFrame msg (emit (CounterInc ''mqttCommandCounter'' ''down'') w)
      | Config \<Rightarrow> handleGatewayConfiguration msg (emit (CounterInc ''mqttCommandCounter'' ''config'') w)
      | Exec \<Rightarrow> handleGatewayCommandExecRequest msg w
      | Raw \<Rightarrow> handleRawPacketForwarderCommand msg w
      | Unknown \<Rightarrow> logf WarnLevel [(''topic'', FStr (Topic msg))]
                       ''integration/mqtt: unexpected command received'' w)"
    by (rule handleCommand_dispatch)
  show ?thesis
    using ex order raw unknown dispatch by blast
qed

theorem handleCommand_classifies_witness:
  "sublist ''command=raw'' ''gw/1234/command=raw'' \<and> \<not> accepts ''down'' ''gw/1234/command=raw'' \<and>
   \<not> accepts ''config'' ''gw/1234/command=raw'' \<and> \<not> accepts ''exec'' ''gw/1234/command=raw'' \<and>
   classify ''gw/1234/command=raw'' = Raw \<and>
   classify (Topic \<lparr>Topic = ''gw/1234/event/up'', Payload = [1]\<rparr>) = Unknown \<and>
   bk (handleCommand \<lparr>Topic = ''gw/1234/event/up'', Payload = [1]\<rparr> world0) = bk world0 \<and>
   since world0 (handleCommand \<lparr>Topic = ''gw/1234/event/up'', Payload = [1]\<rparr> world0) =
     [Log WarnLevel [(''topic'', FStr ''gw/1234/event/up'')] ''integration/mqtt: unexpected command received'']"
proof -
  have h1: "sublist ''command=raw'' ''gw/1234/command=raw''"
    by (simp add: Contains_sublist[symmetric])
  have h2: "\<not> accepts ''down'' ''gw/1234/command=raw''" "\<not> accepts ''config'' ''gw/1234/command=raw''"
    "\<not> accepts ''exec'' ''gw/1234/command=raw''"
    by (simp_all add: accepts_code HasSuffix_def)
  have h3: "classify (Topic \<lparr>Topic = ''gw/1234/event/up'', Payload = [1]\<rparr>) = Unknown"
    by (simp add: classify_def accepts_code HasSuffix_def)
  let ?m = "\<lparr>Topic = ''gw/1234/event/up'', Payload = [1]\<rparr>"
  from handleCommand_classifies [of ?m world0 "''gw/1234/command=raw''"] h1 h2 h3
  have "classify ''gw/1234/command=raw'' = Raw \<and>
        bk (handleCommand ?m world0) = bk world0 \<and>
        since world0 (handleCommand ?m world0) =
          [Log WarnLevel [(''topic'', FStr (Topic ?m))] ''integration/mqtt: unexpected command received'']"
    by blast
  then show ?thesis
    using h1 h2 h3 by simp
qed

text \<open>
  The claim as written fails: \<^verbatim>\<open>devices/gw-1234/commands/config\<close> does not contain
  \<^verbatim>\<open>command=config\<close>, and it is classified Config, not Unknown; and a topic that
  contains \<^verbatim>\<open>command=raw\<close> and ends with \<^verbatim>\<open>down\<close> is classified Downlink, not Raw.
\<close>

theorem classify_counterexample:
  "classify ''devices/gw-1234/commands/config'' = Config \<and>
   \<not> sublist ''command=config'' ''devices/gw-1234/commands/config'' \<and>
   sublist ''command=raw'' ''devices/gw-1234/messages/devicebound/command=raw&kind=down'' \<and>
   classify ''devices/gw-1234/messages/devicebound/command=raw&kind=down'' = Downlink"
  by (simp add: classify_def accepts_code HasSuffix_def Contains_sublist[symmetric])

subsection \<open>Decode failures\<close>

lemma world0_simps [simp]:
  "bk world0 = backend0" "trace world0 = []" "tokens world0 n = ok_token" "requests world0 = 0"
  "auth_Update world0 n = None" "updates world0 = 0" "clients world0 = 1"
  by (simp_all add: world0_def)

lemma backend0_simps [simp]:
  "conn backend0 = Some 0" "closed backend0 = False"
  "downlinkFrameFunc backend0 = Some (Handler 1)"
  "gatewayConfigurationFunc backend0 = Some (Handler 2)"
  "gatewayCommandExecRequestFunc backend0 = Some (Handler 3)"
  "rawPacketForwarderCommandFunc backend0 = Some (Handler 4)"
  "gateways backend0 = Map.empty"
  "terminateOnConnectError backend0 = False"
  "qos backend0 = 0"
  "ReconnectAfter backend0 = 0"
  "eventTopicTemplate backend0 g e =
     (if length g = 8 then Inr (''gateway/id/event/'' @ e)
      else Inl (errors_New ''template: bad gateway id''))"
  "commandTopicTemplate backend0 g =
     (if g = gw1 then Inr ''gateway/0102030405060708/command/#''
      else if g = gw2 then Inr ''gateway/0807060504030201/command/#''
      else Inl (errors_New ''template: bad gateway id''))"
  "marshal backend0 m = (if m = [] then Inl (errors_New ''proto: nil message'') else Inr m)"
  "unmarshal_DownlinkFrame backend0 p =
     (if p = [] then Inl (errors_New ''unexpected EOF'') else Inr (legacy_frame (tl p)))"
  "unmarshal_GatewayConfiguration backend0 p =
     (if p = [] then Inl (errors_New ''unexpected EOF'')
      else Inr \<lparr>Config_GatewayId = gw1, Version = ''1''\<rparr>)"
  "unmarshal_GatewayCommandExecRequest backend0 p =
     (if p = [] then Inl (errors_New ''unexpected EOF'')
      else Inr \<lparr>Exec_GatewayId = gw1, Command = ''reboot'', ExecId = p\<rparr>)"
  "unmarshal_RawPacketForwarderCommand backend0 p =
     (if p = [] then Inl (errors_New ''unexpected EOF'')
      else Inr \<lparr>Raw_GatewayId = gw1, RawId = [], Raw_Payload = p\<rparr>)"
  by (simp_all add: backend0_def)

lemma handleDownlinkFrame_Inl:
  "unmarshal_DownlinkFrame (bk w) (Payload msg) = Inl err \<Longrightarrow>
   handleDownlinkFrame msg w =
     emit (Log ErrorLevel [(''topic'', FStr (Topic msg)), (''error'', FErr err)]
             ''integration/mqtt: unmarshal downlink frame error'') w"
  by (simp add: handleDownlinkFrame_def logf_def)

lemma handleGatewayConfiguration_Inl:
  "unmarshal_GatewayConfiguration (bk w) (Payload msg) = Inl err \<Longrightarrow>
   handleGatewayConfiguration msg w =
     emit (Log ErrorLevel [(''error'', FErr err)]
             ''integration/mqtt: unmarshal gateway configuration error'')
       (emit (Log InfoLevel [(''topic'', FStr (Topic msg))]
                ''integration/mqtt: gateway configuration received'') w)"
  by (simp add: handleGatewayConfiguration_def logf_def)

lemma handleGatewayCommandExecRequest_Inl:
  "unmarshal_GatewayCommandExecRequest (bk w) (Payload msg) = Inl err \<Longrightarrow>
   handleGatewayCommandExecRequest msg w =
     emit (Log ErrorLevel [(''topic'', FStr (Topic msg)), (''error'', FErr err)]
             ''integration/mqtt: unmarshal gateway command execution request error'') w"
  by (simp add: handleGatewayCommandExecRequest_def logf_def)

lemma handleRawPacketForwarderCommand_Inl:
  "unmarshal_RawPacketForwarderCommand (bk w) (Payload msg) = Inl err \<Longrightarrow>
   handleRawPacketForwarderCommand msg w =
     emit (Log ErrorLevel [(''topic'', FStr (Topic msg)), (''error'', FErr err)]
             ''integration/mqtt: unmarshal raw packet-forwarder command error'') w"
  by (simp add: handleRawPacketForwarderCommand_def logf_def)

lemma emit_frame [simp]: "(emit e w)\<lparr>trace := t\<rparr> = w\<lparr>trace := t\<rparr>"
  by (simp add: emit_def)

lemma since_emit_emit [simp]: "since w (emit e2 (emit e1 w)) = [e1, e2]"
  by (simp add: since_def emit_def)

lemma since_emit_emit_emit [simp]: "since w (emit e3 (emit e2 (emit e1 w))) = [e1, e2, e3]"
  by (simp add: since_def emit_def)

lemma classify_down: "classify ''gateway/0102030405060708/command/down'' = Downlink"
  by (simp add: classify_def accepts_code HasSuffix_def)

text \<open>
  C7. When the payload of an inbound message does not decode into the variant its topic
  selects, \<^verbatim>\<open>handleCommand\<close> logs the decode error at error level and does nothing
  else: the world is as it was but for the trace (so the connection handle, the registry,
  the closed flag and the handlers are unchanged); what is added to the trace is, kind by
  kind, exactly the metric increment of the dispatcher (for down and config), the info
  entry of the configuration handler, and then the error entry that carries the codec's
  error; no handler is called and nothing is asked of the broker.
\<close>

theorem decode_failure_is_message_local:
  assumes "decode_fails (bk w) msg"
  shows "bk (handleCommand msg w) = bk w \<and>
         (handleCommand msg w)\<lparr>trace := trace w\<rparr> = w \<and>
         (\<forall>e \<in> set (since w (handleCommand msg w)). is_Log e \<or> is_CounterInc e) \<and>
         filter is_call (since w (handleCommand msg w)) = [] \<and>
         filter is_broker (since w (handleCommand msg w)) = [] \<and>
         (\<exists>fs text. last (since w (handleCommand msg w)) = Log ErrorLevel fs text \<and>
                    since w (handleCommand msg w) \<noteq> []) \<and>
         (classify (Topic msg) = Downlink \<and>
          unmarshal_DownlinkFrame (bk w) (Payload msg) = Inl err \<longrightarrow>
            since w (handleCommand msg w) =
              [CounterInc ''mqttCommandCounter'' ''down'',
               Log ErrorLevel [(''topic'', FStr (Topic msg)), (''error'', FErr err)]
                 ''integration/mqtt: unmarshal downlink frame error'']) \<and>
         (classify (Topic msg) = Config \<and>
          unmarshal_GatewayConfiguration (bk w) (Payload msg) = Inl err \<longrightarrow>
            since w (handleCommand msg w) =
              [CounterInc ''mqttCommandCounter'' ''config'',
               Log InfoLevel [(''topic'', FStr (Topic msg))]
                 ''integration/mqtt: gateway configuration received'',
               Log ErrorLevel [(''error'', FErr err)]
                 ''integration/mqtt: unmarshal gateway configuration error'']) \<and>
         (classify (Topic msg) = Exec \<and>
          unmarshal_GatewayCommandExecRequest (bk w) (Payload msg) = Inl err \<longrightarrow>
            since w (handleCommand msg w) =
              [Log ErrorLevel [(''topic'', FStr (Topic msg)), (''error'', FErr err)]
                 ''integration/mqtt: unmarshal gateway command execution request error'']) \<and>
         (classify (Topic msg) = Raw \<and>
          unmarshal_RawPacketForwarderCommand (bk w) (Payload msg) = Inl err \<longrightarrow>
            since w (handleCommand msg w) =
              [Log ErrorLevel [(''topic'', FStr (Topic msg)), (''error'', FErr err)]
                 ''integration/mqtt: unmarshal raw packet-forwarder command error''])"
proof (cases "classify (Topic msg)")
  case Downlink
  with assms obtain e where "unmarshal_DownlinkFrame (bk w) (Payload msg) = Inl e"
    by (auto simp: decode_fails_def isl_def)
  then show ?thesis
    using Downlink by (simp add: handleCommand_dispatch handleDownlinkFrame_Inl)
next
  case Config
  with assms obtain e where "unmarshal_GatewayConfiguration (bk w) (Payload msg) = Inl e"
    by (auto simp: decode_fails_def isl_def)
  then show ?thesis
    using Config by (simp add: handleCommand_dispatch handleGatewayConfiguration_Inl)
next
  case Exec
  with assms obtain e where "unmarshal_GatewayCommandExecRequest (bk w) (Payload msg) = Inl e"
    by (auto simp: decode_fails_def isl_def)
  then show ?thesis
    using Exec by (simp add: handleCommand_dispatch handleGatewayCommandExecRequest_Inl)
next
  case Raw
  with assms obtain e where "unmarshal_RawPacketForwarderCommand (bk w) (Payload msg) = Inl e"
    by (auto simp: decode_fails_def isl_def)
  then show ?thesis
    using Raw by (simp add: handleCommand_dispatch handleRawPacketForwarderCommand_Inl)
next
  case Unknown
  with assms show ?thesis by (simp add: decode_fails_def)
qed

lemma classify_kinds:
  "classify ''gateway/0102030405060708/command/config'' = Config"
  "classify ''gateway/0102030405060708/command/exec'' = Exec"
  "classify ''gateway/0102030405060708/command/raw'' = Raw"
  by (simp_all add: classify_def accepts_code HasSuffix_def)

theorem decode_failure_is_message_local_witness:
  "decode_fails (bk world0) \<lparr>Topic = ''gateway/0102030405060708/command/down'', Payload = []\<rparr> \<and>
   bk (handleCommand \<lparr>Topic = ''gateway/0102030405060708/command/down'', Payload = []\<rparr> world0) = bk world0 \<and>
   filter is_call (since world0
     (handleCommand \<lparr>Topic = ''gateway/0102030405060708/command/down'', Payload = []\<rparr> world0)) = [] \<and>
   since world0 (handleCommand \<lparr>Topic = ''gateway/0102030405060708/command/down'', Payload = []\<rparr> world0) =
     [CounterInc ''mqttCommandCounter'' ''down'',
      Log ErrorLevel [(''topic'', FStr ''gateway/0102030405060708/command/down''),
                      (''error'', FErr (errors_New ''unexpected EOF''))]
        ''integration/mqtt: unmarshal downlink frame error''] \<and>
   decode_fails (bk world0) \<lparr>Topic = ''gateway/0102030405060708/command/config'', Payload = []\<rparr> \<and>
   since world0 (handleCommand \<lparr>Topic = ''gateway/0102030405060708/command/config'', Payload = []\<rparr> world0) =
     [CounterInc ''mqttCommandCounter'' ''config'',
      Log InfoLevel [(''topic'', FStr ''gateway/0102030405060708/command/config'')]
        ''integration/mqtt: gateway configuration received'',
      Log ErrorLevel [(''error'', FErr (errors_New ''unexpected EOF''))]
        ''integration/mqtt: unmarshal gateway configuration error''] \<and>
   decode_fails (bk world0) \<lparr>Topic = ''gateway/0102030405060708/command/exec'', Payload = []\<rparr> \<and>
   since world0 (handleCommand \<lparr>Topic = ''gateway/0102030405060708/command/exec'', Payload = []\<rparr> world0) =
     [Log ErrorLevel [(''topic'', FStr ''gateway/0102030405060708/command/exec''),
                      (''error'', FErr (errors_New ''unexpected EOF''))]
        ''integration/mqtt: unmarshal gateway command execution request error''] \<and>
   decode_fails (bk world0) \<lparr>Topic = ''gateway/0102030405060708/command/raw'', Payload = []\<rparr> \<and>
   since world0 (handleCommand \<lparr>Topic = ''gateway/0102030405060708/command/raw'', Payload = []\<rparr> world0) =
     [Log ErrorLevel [(''topic'', FStr ''gateway/0102030405060708/command/raw''),
                      (''error'', FErr (errors_New ''unexpected EOF''))]
        ''integration/mqtt: unmarshal raw packet-forwarder command error'']"
proof -
  let ?d = "\<lparr>Topic = ''gateway/0102030405060708/command/down'', Payload = []\<rparr>"
  let ?c = "\<lparr>Topic = ''gateway/0102030405060708/command/config'', Payload = []\<rparr>"
  let ?e = "\<lparr>Topic = ''gateway/0102030405060708/command/exec'', Payload = []\<rparr>"
  let ?r = "\<lparr>Topic = ''gateway/0102030405060708/command/raw'', Payload = []\<rparr>"
  let ?err = "errors_New ''unexpected EOF''"
  have h: "decode_fails (bk world0) ?d" "decode_fails (bk world0) ?c"
    "decode_fails (bk world0) ?e" "decode_fails (bk world0) ?r"
    by (simp_all add: decode_fails_def classify_down classify_kinds)
  have k: "classify (Topic ?d) = Downlink \<and> unmarshal_DownlinkFrame (bk world0) (Payload ?d) = Inl ?err"
    "classify (Topic ?c) = Config \<and> unmarshal_GatewayConfiguration (bk world0) (Payload ?c) = Inl ?err"
    "classify (Topic ?e) = Exec \<and> unmarshal_GatewayCommandExecRequest (bk world0) (Payload ?e) = Inl ?err"
    "classify (Topic ?r) = Raw \<and> unmarshal_RawPacketForwarderCommand (bk world0) (Payload ?r) = Inl ?err"
    by (simp_all add: classify_down classify_kinds)
  from decode_failure_is_message_local [OF h(1), of ?err] k(1)
  have 1: "bk (handleCommand ?d world0) = bk world0 \<and>
      filter is_call (since world0 (handleCommand ?d world0)) = [] \<and>
      since world0 (handleCommand ?d world0) =
        [CounterInc ''mqttCommandCounter'' ''down'',
         Log ErrorLevel [(''topic'', FStr (Topic ?d)), (''error'', FErr ?err)]
           ''integration/mqtt: unmarshal downlink frame error'']"
    by blast
  from decode_failure_is_message_local [OF h(2), of ?err] k(2)
  have 2: "since world0 (handleCommand ?c world0) =
        [CounterInc ''mqttCommandCounter'' ''config'',
         Log InfoLevel [(''topic'', FStr (Topic ?c))]
           ''integration/mqtt: gateway configuration received'',
         Log ErrorLevel [(''error'', FErr ?err)]
           ''integration/mqtt: unmarshal gateway configuration error'']"
    by blast
  from decode_failure_is_message_local [OF h(3), of ?err] k(3)
  have 3: "since world0 (handleCommand ?e world0) =
        [Log ErrorLevel [(''topic'', FStr (Topic ?e)), (''error'', FErr ?err)]
           ''integration/mqtt: unmarshal gateway command execution request error'']"
    by blast
  from decode_failure_is_message_local [OF h(4), of ?err] k(4)
  have 4: "since world0 (handleCommand ?r world0) =
        [Log ErrorLevel [(''topic'', FStr (Topic ?r)), (''error'', FErr ?err)]
           ''integration/mqtt: unmarshal raw packet-forwarder command error'']"
    by blast
  from h 1 2 3 4 show ?thesis by simp
qed

subsection \<open>Legacy downlink frames\<close>

lemma legacy_present:
  "Items df = [] \<Longrightarrow> TxInfo df = Some T \<Longrightarrow> PhyPayload df \<noteq> [] \<Longrightarrow>
   legacy df = df\<lparr>Items := [Some \<lparr>Item_PhyPayload = PhyPayload df, Item_TxInfo = Some T\<rparr>],
                   GatewayId := TXInfo_GatewayId T\<rparr>"
  by (simp add: legacy_def Let_def Item_GetTxInfo_def TXInfo_GetGatewayId_def)

lemma legacy_absent:
  "Items df = [] \<Longrightarrow> TxInfo df = None \<or> PhyPayload df = [] \<Longrightarrow> legacy df = df"
  by (auto simp: legacy_def)

text \<open>
  C2. Let the payload decode to a frame \<open>df\<close> with no items. If \<open>df\<close> has transmit
  parameters \<open>T\<close> and a non-empty payload, the frame handed on has exactly one item, made
  of that payload and \<open>T\<close>, and its gateway identity is the one of \<open>T\<close>; this
  normalised frame is what the registered downlink handler is called with (one call; none
  when no handler is registered). If the transmit parameters or the payload are missing,
  the only effect is the log entry that a downlink must have at least one item: the
  handler is not called.
\<close>

theorem legacy_downlink_normalization:
  assumes "unmarshal_DownlinkFrame (bk w) (Payload msg) = Inr df" and "Items df = []"
  shows
    "(TxInfo df = Some T \<and> PhyPayload df \<noteq> [] \<longrightarrow>
        legacy df = df\<lparr>Items := [Some \<lparr>Item_PhyPayload = PhyPayload df, Item_TxInfo = Some T\<rparr>],
                        GatewayId := TXInfo_GatewayId T\<rparr> \<and>
        bk (handleDownlinkFrame msg w) = bk w \<and>
        filter is_call (since w (handleDownlinkFrame msg w)) =
          (case downlinkFrameFunc (bk w) of
             None \<Rightarrow> []
           | Some f \<Rightarrow> [Call_downlinkFrameFunc f (legacy df)])) \<and>
     (TxInfo df = None \<or> PhyPayload df = [] \<longrightarrow>
        handleDownlinkFrame msg w =
          emit (Log ErrorLevel [(''downlink_id'', FBytes (copy_array 16 (DownlinkId df)))]
                  ''integration/mqtt: downlink must have at least one item'') w)"
proof (intro conjI impI)
  assume a: "TxInfo df = Some T \<and> PhyPayload df \<noteq> []"
  with assms show l: "legacy df = df\<lparr>Items := [Some \<lparr>Item_PhyPayload = PhyPayload df, Item_TxInfo = Some T\<rparr>],
                        GatewayId := TXInfo_GatewayId T\<rparr>"
    by (simp add: legacy_present)
  then have n: "Items (legacy df) \<noteq> []" by simp
  from assms n show "bk (handleDownlinkFrame msg w) = bk w"
    by (simp add: handleDownlinkFrame_def Let_def logf_def split: option.split)
  from assms n show "filter is_call (since w (handleDownlinkFrame msg w)) =
          (case downlinkFrameFunc (bk w) of
             None \<Rightarrow> []
           | Some f \<Rightarrow> [Call_downlinkFrameFunc f (legacy df)])"
    by (simp add: handleDownlinkFrame_def Let_def logf_def split: option.split)
next
  assume "TxInfo df = None \<or> PhyPayload df = []"
  with assms have "legacy df = df" by (simp add: legacy_absent)
  with assms show "handleDownlinkFrame msg w =
          emit (Log ErrorLevel [(''downlink_id'', FBytes (copy_array 16 (DownlinkId df)))]
                  ''integration/mqtt: downlink must have at least one item'') w"
    by (simp add: handleDownlinkFrame_def Let_def logf_def)
qed

theorem legacy_downlink_normalization_witness:
  "unmarshal_DownlinkFrame (bk world0) (Payload \<lparr>Topic = ''gw/down'', Payload = [1, 2]\<rparr>) = Inr (legacy_frame [2]) \<and>
   Items (legacy_frame [2]) = [] \<and>
   TxInfo (legacy_frame [2]) = Some \<lparr>TXInfo_GatewayId = gw1, Frequency = 868100000, Power = 14\<rparr> \<and>
   PhyPayload (legacy_frame [2]) \<noteq> [] \<and>
   filter is_call (since world0 (handleDownlinkFrame \<lparr>Topic = ''gw/down'', Payload = [1, 2]\<rparr> world0)) =
     [Call_downlinkFrameFunc (Handler 1)
        \<lparr>PhyPayload = [2],
         TxInfo = Some \<lparr>TXInfo_GatewayId = gw1, Frequency = 868100000, Power = 14\<rparr>,
         DownlinkId = [7],
         Items = [Some \<lparr>Item_PhyPayload = [2],
                        Item_TxInfo = Some \<lparr>TXInfo_GatewayId = gw1, Frequency = 868100000, Power = 14\<rparr>\<rparr>],
         GatewayId = gw1\<rparr>] \<and>
   unmarshal_DownlinkFrame (bk world0) (Payload \<lparr>Topic = ''gw/down'', Payload = [1]\<rparr>) = Inr (legacy_frame []) \<and>
   Items (legacy_frame []) = [] \<and>
   PhyPayload (legacy_frame []) = [] \<and>
   handleDownlinkFrame \<lparr>Topic = ''gw/down'', Payload = [1]\<rparr> world0 =
     emit (Log ErrorLevel [(''downlink_id'', FBytes (7 # replicate 15 0))]
             ''integration/mqtt: downlink must have at least one item'') world0"
proof -
  let ?m = "\<lparr>Topic = ''gw/down'', Payload = [1, 2]\<rparr>"
  let ?n = "\<lparr>Topic = ''gw/down'', Payload = [1]\<rparr>"
  let ?T = "\<lparr>TXInfo_GatewayId = gw1, Frequency = 868100000, Power = 14\<rparr>"
  have a1: "unmarshal_DownlinkFrame (bk world0) (Payload ?m) = Inr (legacy_frame [2])"
    and a2: "Items (legacy_frame [2]) = []"
    and a3: "TxInfo (legacy_frame [2]) = Some ?T \<and> PhyPayload (legacy_frame [2]) \<noteq> []"
    by (simp_all add: legacy_frame_def)
  have b1: "unmarshal_DownlinkFrame (bk world0) (Payload ?n) = Inr (legacy_frame [])"
    and b2: "Items (legacy_frame []) = []"
    and b3: "TxInfo (legacy_frame []) = None \<or> PhyPayload (legacy_frame []) = []"
    by (simp_all add: legacy_frame_def)
  from legacy_downlink_normalization [OF a1 a2, of ?T] a3
  have "filter is_call (since world0 (handleDownlinkFrame ?m world0)) =
          [Call_downlinkFrameFunc (Handler 1) (legacy (legacy_frame [2]))] \<and>
        legacy (legacy_frame [2]) =
          (legacy_frame [2])\<lparr>Items := [Some \<lparr>Item_PhyPayload = PhyPayload (legacy_frame [2]), Item_TxInfo = Some ?T\<rparr>],
                        GatewayId := TXInfo_GatewayId ?T\<rparr>"
    by simp
  moreover from legacy_downlink_normalization [OF b1 b2, of ?T] b3
  have "handleDownlinkFrame ?n world0 =
          emit (Log ErrorLevel [(''downlink_id'', FBytes (copy_array 16 (DownlinkId (legacy_frame []))))]
                  ''integration/mqtt: downlink must have at least one item'') world0"
    by blast
  ultimately show ?thesis
    using a1 a2 a3 b1 b2 by (simp add: legacy_frame_def copy_array_def)
qed

subsection \<open>Publishing\<close>

lemma world1_simps [simp]:
  "bk world1 = backend0" "trace world1 = []"
  "tokens world1 n = (if n < 2 then bad_token else ok_token)" "requests world1 = 0"
  "auth_Update world1 n = None" "updates world1 = 0" "clients world1 = 1"
  by (simp_all add: world1_def world0_def)

lemma token_simps [simp]:
  "failed bad_token" "\<not> failed ok_token" "Error bad_token = Some (errors_New ''not connected'')"
  "Error ok_token = None" "Wait bad_token" "Wait ok_token"
  by (simp_all add: failed_def bad_token_def ok_token_def)

lemma emit_fields [simp]:
  "requests (emit e w) = requests w" "tokens (emit e w) = tokens w"
  "auth_Update (emit e w) = auth_Update w" "updates (emit e w) = updates w"
  "clients (emit e w) = clients w"
  by (simp_all add: emit_def)

lemma request_simps [simp]:
  "fst (request e w) = tokens w (requests w)"
  "bk (snd (request e w)) = bk w"
  "trace (snd (request e w)) = trace w @ [e]"
  "requests (snd (request e w)) = Suc (requests w)"
  "tokens (snd (request e w)) = tokens w"
  by (simp_all add: request_def emit_def)

lemma publish_Inl_template:
  "eventTopicTemplate (bk w) g ev = Inl err \<Longrightarrow>
   publish g ev fs v w = (Return (Some (errors_Wrap err ''execute event template error'')), w)"
  by (simp add: publish_def)

lemma publish_Inl_marshal:
  "eventTopicTemplate (bk w) g ev = Inr topic \<Longrightarrow> marshal (bk w) v = Inl err \<Longrightarrow>
   publish g ev fs v w = (Return (Some (errors_Wrap err ''marshal message error'')), w)"
  by (simp add: publish_def)

lemma publish_Inr:
  assumes "eventTopicTemplate (bk w) g ev = Inr topic" "marshal (bk w) v = Inr bytes"
    "conn (bk w) = Some c"
  shows "fst (publish g ev fs v w) =
           Return (if failed (tokens w (requests w)) then Error (tokens w (requests w)) else None)"
    and "trace (snd (publish g ev fs v w)) =
           trace w @ [Log InfoLevel
                        (AList.update ''event'' (FStr ev)
                          (AList.update ''qos'' (FQos (qos (bk w)))
                            (AList.update ''topic'' (FStr topic) fs)))
                        ''integration/mqtt: publishing event'',
                      Publish c topic (qos (bk w)) False bytes]"
    and "requests (snd (publish g ev fs v w)) = Suc (requests w)"
    and "bk (snd (publish g ev fs v w)) = bk w"
  using assms
  by (auto simp: publish_def Let_def logf_def split_beta failed_def
           split: bool.splits option.splits)

lemma since_self [simp]: "since w w = []"
  by (simp add: since_def)

text \<open>
  C6 (amended). When the topic renders, the message encodes and the backend is
  connected, \<^verbatim>\<open>PublishEvent\<close> makes exactly one request of the broker, a publish
  of the encoded message at the backend's QoS with the retained flag false, and returns
  the token's error as it is (nil when the token did not fail): there is no retry. When
  the topic does not render or the message does not encode, nothing is asked of the
  broker and the error returned is the library's error wrapped by \<^verbatim>\<open>errors.Wrap\<close>
  with a message of the backend's.
\<close>

theorem PublishEvent_errors:
  "(eventTopicTemplate (bk w) g ev = Inr topic \<and> marshal (bk w) v = Inr bytes \<and>
      conn (bk w) = Some c \<longrightarrow>
      filter is_broker (since w (snd (PublishEvent g ev uid v w))) =
        [Publish c topic (qos (bk w)) False bytes] \<and>
      requests (snd (PublishEvent g ev uid v w)) = requests w + 1 \<and>
      fst (PublishEvent g ev uid v w) =
        Return (if failed (tokens w (requests w)) then Error (tokens w (requests w)) else None)) \<and>
   (eventTopicTemplate (bk w) g ev = Inl err \<longrightarrow>
      fst (PublishEvent g ev uid v w) =
        Return (Some (errors_Wrap err ''execute event template error'')) \<and>
      filter is_broker (since w (snd (PublishEvent g ev uid v w))) = [] \<and>
      requests (snd (PublishEvent g ev uid v w)) = requests w) \<and>
   (eventTopicTemplate (bk w) g ev = Inr topic \<and> marshal (bk w) v = Inl err \<longrightarrow>
      fst (PublishEvent g ev uid v w) =
        Return (Some (errors_Wrap err ''marshal message error'')) \<and>
      filter is_broker (since w (snd (PublishEvent g ev uid v w))) = [] \<and>
      requests (snd (PublishEvent g ev uid v w)) = requests w)"
proof (intro conjI impI)
  let ?w1 = "emit (CounterInc ''mqttEventCounter'' ev) w"
  let ?fs = "[((case map_of idPrefix ev of None \<Rightarrow> [] | Some p \<Rightarrow> p) @ ''id'', FBytes uid)]"
  have P: "PublishEvent g ev uid v w = publish g ev ?fs v ?w1"
    by (simp add: PublishEvent_def)
  have e: "requests ?w1 = requests w" "tokens ?w1 = tokens w"
    by (simp_all add: emit_def)
  {
    assume a: "eventTopicTemplate (bk w) g ev = Inr topic \<and> marshal (bk w) v = Inr bytes \<and>
      conn (bk w) = Some c"
    then have a': "eventTopicTemplate (bk ?w1) g ev = Inr topic" "marshal (bk ?w1) v = Inr bytes"
      "conn (bk ?w1) = Some c"
      by simp_all
    show "fst (PublishEvent g ev uid v w) =
        Return (if failed (tokens w (requests w)) then Error (tokens w (requests w)) else None)"
      using publish_Inr(1) [OF a', of ?fs] by (simp add: P e)
    show "requests (snd (PublishEvent g ev uid v w)) = requests w + 1"
      using publish_Inr(3) [OF a', of ?fs] by (simp add: P e)
    show "filter is_broker (since w (snd (PublishEvent g ev uid v w))) =
        [Publish c topic (qos (bk w)) False bytes]"
      using publish_Inr(2) [OF a', of ?fs] by (simp add: P since_def)
  }
  {
    assume a: "eventTopicTemplate (bk w) g ev = Inl err"
    then have "PublishEvent g ev uid v w =
       (Return (Some (errors_Wrap err ''execute event template error'')), ?w1)"
      by (simp add: P publish_Inl_template)
    then show "fst (PublishEvent g ev uid v w) =
        Return (Some (errors_Wrap err ''execute event template error''))"
      and "filter is_broker (since w (snd (PublishEvent g ev uid v w))) = []"
      and "requests (snd (PublishEvent g ev uid v w)) = requests w"
      by (simp_all add: e)
  }
  {
    assume a: "eventTopicTemplate (bk w) g ev = Inr topic \<and> marshal (bk w) v = Inl err"
    then have "PublishEvent g ev uid v w =
       (Return (Some (errors_Wrap err ''marshal message error'')), ?w1)"
      by (simp add: P publish_Inl_marshal)
    then show "fst (PublishEvent g ev uid v w) =
        Return (Some (errors_Wrap err ''marshal message error''))"
      and "filter is_broker (since w (snd (PublishEvent g ev uid v w))) = []"
      and "requests (snd (PublishEvent g ev uid v w)) = requests w"
      by (simp_all add: e)
  }
qed

theorem PublishEvent_errors_witness:
  "eventTopicTemplate (bk world1) gw1 ''up'' = Inr ''gateway/id/event/up'' \<and>
   marshal (bk world1) [1] = Inr [1] \<and> conn (bk world1) = Some 0 \<and>
   failed (tokens world1 (requests world1)) \<and>
   filter is_broker (since world1 (snd (PublishEvent gw1 ''up'' [] [1] world1))) =
     [Publish 0 ''gateway/id/event/up'' 0 False [1]] \<and>
   fst (PublishEvent gw1 ''up'' [] [1] world1) = Return (Some (errors_New ''not connected'')) \<and>
   eventTopicTemplate (bk world0) [] ''up'' = Inl (errors_New ''template: bad gateway id'') \<and>
   fst (PublishEvent [] ''up'' [] [1] world0) =
     Return (Some (errors_Wrap (errors_New ''template: bad gateway id'') ''execute event template error'')) \<and>
   marshal (bk world0) [] = Inl (errors_New ''proto: nil message'') \<and>
   filter is_broker (since world0 (snd (PublishEvent gw1 ''up'' [] [] world0))) = []"
proof -
  have a: "eventTopicTemplate (bk world1) gw1 ''up'' = Inr ''gateway/id/event/up'' \<and>
     marshal (bk world1) [1] = Inr [1] \<and> conn (bk world1) = Some 0"
    and f: "failed (tokens world1 (requests world1))"
    and b: "eventTopicTemplate (bk world0) [] ''up'' = Inl (errors_New ''template: bad gateway id'')"
    and c: "eventTopicTemplate (bk world0) gw1 ''up'' = Inr ''gateway/id/event/up'' \<and>
      marshal (bk world0) [] = Inl (errors_New ''proto: nil message'')"
    by (simp_all add: gw1_def)
  from PublishEvent_errors [of world1 gw1 "''up''" "''gateway/id/event/up''" "[1]" "[1]" 0 "[]"] a f
  have 1: "filter is_broker (since world1 (snd (PublishEvent gw1 ''up'' [] [1] world1))) =
     [Publish 0 ''gateway/id/event/up'' 0 False [1]] \<and>
   fst (PublishEvent gw1 ''up'' [] [1] world1) = Return (Some (errors_New ''not connected''))"
    by simp
  from PublishEvent_errors [of world0 "[]" "''up''" _ "[1]" _ _ "[]" "errors_New ''template: bad gateway id''"] b
  have 2: "fst (PublishEvent [] ''up'' [] [1] world0) =
     Return (Some (errors_Wrap (errors_New ''template: bad gateway id'') ''execute event template error''))"
    by simp
  from PublishEvent_errors [of world0 gw1 "''up''" "''gateway/id/event/up''" "[]" _ _ "[]" "errors_New ''proto: nil message''"] c
  have 3: "filter is_broker (since world0 (snd (PublishEvent gw1 ''up'' [] [] world0))) = []"
    by simp
  from a f b c 1 2 3 show ?thesis by simp
qed

text \<open>
  The claim as written fails for an encoding error: the caller gets the error wrapped, not
  the error itself.
\<close>

theorem PublishEvent_counterexample:
  "marshal (bk world0) [] = Inl (errors_New ''proto: nil message'') \<and>
   fst (PublishEvent gw1 ''up'' [] [] world0) =
     Return (Some (errors_Wrap (errors_New ''proto: nil message'') ''marshal message error'')) \<and>
   fst (PublishEvent gw1 ''up'' [] [] world0) \<noteq> Return (Some (errors_New ''proto: nil message''))"
  by (simp add: PublishEvent_def publish_def gw1_def)

subsection \<open>Subscriptions\<close>

lemma logf_fields [simp]:
  "bk (logf l fs m w) = bk w" "trace (logf l fs m w) = trace w @ [Log l fs m]"
  "requests (logf l fs m w) = requests w" "tokens (logf l fs m w) = tokens w"
  "auth_Update (logf l fs m w) = auth_Update w" "updates (logf l fs m w) = updates w"
  "clients (logf l fs m w) = clients w"
  by (simp_all add: logf_def)

lemma sleep_fields [simp]:
  "bk (sleep d w) = bk w" "trace (sleep d w) = trace w @ [Sleep d]"
  "requests (sleep d w) = requests w" "tokens (sleep d w) = tokens w"
  "auth_Update (sleep d w) = auth_Update w" "updates (sleep d w) = updates w"
  "clients (sleep d w) = clients w"
  by (simp_all add: sleep_def)

lemma request_more [simp]:
  "auth_Update (snd (request e w)) = auth_Update w" "updates (snd (request e w)) = updates w"
  "clients (snd (request e w)) = clients w"
  by (simp_all add: request_def)

text \<open>One attempt: \<^verbatim>\<open>subscribeGateway\<close> or \<^verbatim>\<open>unsubscribeGateway\<close>.\<close>

lemma subscribeGateway_connected:
  assumes "commandTopicTemplate (bk w) g = Inr topic" "conn (bk w) = Some c"
  shows "fst (subscribeGateway g w) =
           Return (if failed (tokens w (requests w))
                   then Some (errors_Wrap (the (Error (tokens w (requests w)))) ''subscribe topic error'')
                   else None)"
    and "bk (snd (subscribeGateway g w)) = bk w"
    and "tokens (snd (subscribeGateway g w)) = tokens w"
    and "requests (snd (subscribeGateway g w)) = Suc (requests w)"
    and "trace (snd (subscribeGateway g w)) =
           trace w @ [Log InfoLevel [(''topic'', FStr topic), (''qos'', FQos (qos (bk w)))]
                        ''integration/mqtt: subscribing to topic'',
                      Subscribe c topic (qos (bk w))]"
  using assms
  by (auto simp: subscribeGateway_def Let_def split_beta failed_def
           split: bool.splits option.splits)

lemma unsubscribeGateway_connected:
  assumes "commandTopicTemplate (bk w) g = Inr topic" "conn (bk w) = Some c"
  shows "fst (unsubscribeGateway g w) =
           Return (if failed (tokens w (requests w))
                   then Some (errors_Wrap (the (Error (tokens w (requests w)))) ''unsubscribe topic error'')
                   else None)"
    and "bk (snd (unsubscribeGateway g w)) = bk w"
    and "tokens (snd (unsubscribeGateway g w)) = tokens w"
    and "requests (snd (unsubscribeGateway g w)) = Suc (requests w)"
    and "trace (snd (unsubscribeGateway g w)) =
           trace w @ [Log InfoLevel [(''topic'', FStr topic)]
                        ''integration/mqtt: unsubscribing from topic'',
                      Unsubscribe c topic]"
  using assms
  by (auto simp: unsubscribeGateway_def Let_def split_beta failed_def
           split: bool.splits option.splits)

text \<open>
  The retry loop of \<^verbatim>\<open>SetGatewaySubscription\<close>: when the broker refuses \<open>k\<close> requests
  and accepts the next one, the loop ends after \<open>k + 1\<close> requests and \<open>k\<close> sleeps of one
  second, with the registry updated.
\<close>

lemma SetGatewaySubscription_for_ends:
  assumes "commandTopicTemplate (bk w) g = Inr topic" "conn (bk w) = Some c"
    and "\<forall>i<k. failed (tokens w (requests w + i))"
    and "\<not> failed (tokens w (requests w + k))"
  shows "\<exists>w' es. SetGatewaySubscription_for s g w = Some (Return (), w') \<and>
           bk w' = (bk w)\<lparr>gateways := registry_after s g (gateways (bk w))\<rparr> \<and>
           tokens w' = tokens w \<and> requests w' = requests w + Suc k \<and>
           trace w' = trace w @ es \<and>
           filter is_broker es =
             replicate (Suc k) (broker_call s c topic (qos (bk w))) \<and>
           filter is_Sleep es = replicate k (Sleep Second) \<and>
           filter is_lock es = []"
  using assms
proof (induction k arbitrary: w)
  case 0
  then have ok: "\<not> failed (tokens w (requests w))" by simp
  show ?case
  proof (cases s)
    case True
    let ?w1 = "snd (subscribeGateway g w)"
    let ?w' = "?w1\<lparr>bk := (bk ?w1)\<lparr>gateways := (gateways (bk ?w1))(g \<mapsto> ())\<rparr>\<rparr>"
    from ok have "SetGatewaySubscription_for s g w = Some (Return (), ?w')"
      by (subst SetGatewaySubscription_for.simps)
         (simp add: True split_beta subscribeGateway_connected [OF 0(1,2)])
    then show ?thesis
      by (simp add: True subscribeGateway_connected [OF 0(1,2)] registry_after_def broker_call_def fun_upd_def)
  next
    case False
    let ?w1 = "snd (unsubscribeGateway g w)"
    let ?w' = "?w1\<lparr>bk := (bk ?w1)\<lparr>gateways := (gateways (bk ?w1))(g := None)\<rparr>\<rparr>"
    from ok have "SetGatewaySubscription_for s g w = Some (Return (), ?w')"
      by (subst SetGatewaySubscription_for.simps)
         (simp add: False split_beta unsubscribeGateway_connected [OF 0(1,2)])
    then show ?thesis
      by (simp add: False unsubscribeGateway_connected [OF 0(1,2)] registry_after_def broker_call_def fun_upd_def)
  qed
next
  case (Suc k)
  from Suc.prems(3) have bad: "failed (tokens w (requests w))"
    by (metis add.right_neutral zero_less_Suc)
  show ?case
  proof (cases s)
    case True
    let ?err = "errors_Wrap (the (Error (tokens w (requests w)))) ''subscribe topic error''"
    let ?w1 = "snd (subscribeGateway g w)"
    let ?w2 = "sleep Second (logf ErrorLevel [(''error'', FErr ?err), (''gateway_id'', FBytes g)]
                 ''integration/mqtt: subscribe gateway error'' ?w1)"
    note one = subscribeGateway_connected [OF Suc.prems(1,2)]
    from bad have step: "SetGatewaySubscription_for s g w = SetGatewaySubscription_for s g ?w2"
      by (subst SetGatewaySubscription_for.simps) (simp add: True split_beta one)
    have p1: "commandTopicTemplate (bk ?w2) g = Inr topic" "conn (bk ?w2) = Some c"
      using Suc.prems(1,2) by (simp_all add: one)
    have p3: "\<forall>i<k. failed (tokens ?w2 (requests ?w2 + i))"
      using Suc.prems(3) by (simp add: one) (metis Suc_less_eq add_Suc_right)
    have p4: "\<not> failed (tokens ?w2 (requests ?w2 + k))"
      using Suc.prems(4) by (simp add: one)
    from Suc.IH [OF p1 p3 p4] obtain w' es where
      r: "SetGatewaySubscription_for s g ?w2 = Some (Return (), w')"
        "bk w' = (bk ?w2)\<lparr>gateways := registry_after s g (gateways (bk ?w2))\<rparr>"
        "tokens w' = tokens ?w2" "requests w' = requests ?w2 + Suc k"
        "trace w' = trace ?w2 @ es"
        "filter is_broker es =
           replicate (Suc k) (broker_call s c topic (qos (bk ?w2)))"
        "filter is_Sleep es = replicate k (Sleep Second)" "filter is_lock es = []"
      by blast
    show ?thesis
      using step r by (simp add: True one broker_call_def)
  next
    case False
    let ?err = "errors_Wrap (the (Error (tokens w (requests w)))) ''unsubscribe topic error''"
    let ?w1 = "snd (unsubscribeGateway g w)"
    let ?w2 = "sleep Second (logf ErrorLevel [(''error'', FErr ?err), (''gateway_id'', FBytes g)]
                 ''integration/mqtt: unsubscribe gateway error'' ?w1)"
    note one = unsubscribeGateway_connected [OF Suc.prems(1,2)]
    from bad have step: "SetGatewaySubscription_for s g w = SetGatewaySubscription_for s g ?w2"
      by (subst SetGatewaySubscription_for.simps) (simp add: False split_beta one)
    have p1: "commandTopicTemplate (bk ?w2) g = Inr topic" "conn (bk ?w2) = Some c"
      using Suc.prems(1,2) by (simp_all add: one)
    have p3: "\<forall>i<k. failed (tokens ?w2 (requests ?w2 + i))"
      using Suc.prems(3) by (simp add: one) (metis Suc_less_eq add_Suc_right)
    have p4: "\<not> failed (tokens ?w2 (requests ?w2 + k))"
      using Suc.prems(4) by (simp add: one)
    from Suc.IH [OF p1 p3 p4] obtain w' es where
      r: "SetGatewaySubscription_for s g ?w2 = Some (Return (), w')"
        "bk w' = (bk ?w2)\<lparr>gateways := registry_after s g (gateways (bk ?w2))\<rparr>"
        "tokens w' = tokens ?w2" "requests w' = requests ?w2 + Suc k"
        "trace w' = trace ?w2 @ es"
        "filter is_broker es =
           replicate (Suc k) (broker_call s c topic (qos (bk ?w2)))"
        "filter is_Sleep es = replicate k (Sleep Second)" "filter is_lock es = []"
      by blast
    show ?thesis
      using step r by (simp add: False one broker_call_def)
  qed
qed

text \<open>The loop ends only after a request the broker accepted, and then the registry is updated.\<close>

lemma SetGatewaySubscription_for_registry:
  assumes "SetGatewaySubscription_for s g w = Some y"
  shows "fst y = Return () \<longrightarrow> gateways (bk (snd y)) g = (if s then Some () else None)"
  using assms
proof (induction rule: SetGatewaySubscription_for.raw_induct [rotated 1, consumes 1, case_names 1])
  case (1 f s g w y)
  then show ?case
    by (auto split: if_splits prod.splits result.splits option.splits)
qed

lemma SetGatewaySubscription_for_accepted:
  assumes "SetGatewaySubscription_for s g w = Some y"
  shows "conn (bk w) = Some c \<longrightarrow> commandTopicTemplate (bk w) g = Inr topic \<longrightarrow>
         (\<exists>k. \<not> failed (tokens w (requests w + k)))"
  using assms
proof (induction arbitrary: c topic rule: SetGatewaySubscription_for.raw_induct [rotated 1, consumes 1, case_names 1])
  case (1 f s g w y)
  show ?case
  proof (intro impI)
    assume c: "conn (bk w) = Some c" and t: "commandTopicTemplate (bk w) g = Inr topic"
    show "\<exists>k. \<not> failed (tokens w (requests w + k))"
    proof (cases "failed (tokens w (requests w))")
      case False
      then show ?thesis by (metis add.right_neutral)
    next
      case True
      show ?thesis
      proof (cases s)
        case s: True
        let ?err = "errors_Wrap (the (Error (tokens w (requests w)))) ''subscribe topic error''"
        let ?w2 = "sleep Second (logf ErrorLevel [(''error'', FErr ?err), (''gateway_id'', FBytes g)]
                 ''integration/mqtt: subscribe gateway error'' (snd (subscribeGateway g w)))"
        note one = subscribeGateway_connected [OF t c]
        from 1(2) True have "f s g ?w2 = Some y"
          by (simp add: s split_beta one)
        from 1(1) [OF this, of c topic] obtain k where "\<not> failed (tokens ?w2 (requests ?w2 + k))"
          using c t by (auto simp: one)
        then have "\<not> failed (tokens w (requests w + Suc k))"
          by (simp add: one)
        then show ?thesis by blast
      next
        case s: False
        let ?err = "errors_Wrap (the (Error (tokens w (requests w)))) ''unsubscribe topic error''"
        let ?w2 = "sleep Second (logf ErrorLevel [(''error'', FErr ?err), (''gateway_id'', FBytes g)]
                 ''integration/mqtt: unsubscribe gateway error'' (snd (unsubscribeGateway g w)))"
        note one = unsubscribeGateway_connected [OF t c]
        from 1(2) True have "f s g ?w2 = Some y"
          by (simp add: s split_beta one)
        from 1(1) [OF this, of c topic] obtain k where "\<not> failed (tokens ?w2 (requests ?w2 + k))"
          using c t by (auto simp: one)
        then have "\<not> failed (tokens w (requests w + Suc k))"
          by (simp add: one)
        then show ?thesis by blast
      qed
    qed
  qed
qed

lemma SetGatewaySubscription_same:
  "(gateways (bk w) g \<noteq> None) = s \<Longrightarrow>
   SetGatewaySubscription s g w =
     Some (Return None,
       w\<lparr>trace := trace w @
          [Lock,
           Log DebugLevel [(''gateway_id'', FBytes g), (''subscribe'', FBool s)]
             ''integration/mqtt: set gateway subscription called'',
           Unlock]\<rparr>)"
  by (simp add: SetGatewaySubscription_def Let_def logf_def emit_def)

lemma SetGatewaySubscription_changes:
  assumes "(gateways (bk w) g \<noteq> None) \<noteq> s"
    and "commandTopicTemplate (bk w) g = Inr topic" "conn (bk w) = Some c"
    and "\<forall>i<k. failed (tokens w (requests w + i))"
    and "\<not> failed (tokens w (requests w + k))"
  shows "\<exists>w' es. SetGatewaySubscription s g w = Some (Return None, w') \<and>
           bk w' = (bk w)\<lparr>gateways := registry_after s g (gateways (bk w))\<rparr> \<and>
           tokens w' = tokens w \<and> requests w' = requests w + Suc k \<and>
           trace w' = trace w @ es \<and>
           filter is_broker es = replicate (Suc k) (broker_call s c topic (qos (bk w))) \<and>
           filter is_Sleep es = replicate k (Sleep Second)"
proof -
  let ?w2 = "logf DebugLevel [(''gateway_id'', FBytes g), (''subscribe'', FBool s)]
               ''integration/mqtt: set gateway subscription called'' (emit Lock w)"
  have p: "commandTopicTemplate (bk ?w2) g = Inr topic" "conn (bk ?w2) = Some c"
    "\<forall>i<k. failed (tokens ?w2 (requests ?w2 + i))" "\<not> failed (tokens ?w2 (requests ?w2 + k))"
    using assms(2-5) by simp_all
  from SetGatewaySubscription_for_ends [OF p, of s] obtain w3 es where
    r: "SetGatewaySubscription_for s g ?w2 = Some (Return (), w3)"
       "bk w3 = (bk ?w2)\<lparr>gateways := registry_after s g (gateways (bk ?w2))\<rparr>"
       "tokens w3 = tokens ?w2" "requests w3 = requests ?w2 + Suc k"
       "trace w3 = trace ?w2 @ es"
       "filter is_broker es = replicate (Suc k) (broker_call s c topic (qos (bk ?w2)))"
       "filter is_Sleep es = replicate k (Sleep Second)"
    by blast
  let ?es = "[Lock, Log DebugLevel [(''gateway_id'', FBytes g), (''subscribe'', FBool s)]
               ''integration/mqtt: set gateway subscription called''] @ es @ [Unlock]"
  from assms(1) r(1) have "SetGatewaySubscription s g w = Some (Return None, emit Unlock w3)"
    by (cases s) (simp_all add: SetGatewaySubscription_def Let_def)
  then have "SetGatewaySubscription s g w = Some (Return None, emit Unlock w3) \<and>
           bk (emit Unlock w3) = (bk w)\<lparr>gateways := registry_after s g (gateways (bk w))\<rparr> \<and>
           tokens (emit Unlock w3) = tokens w \<and> requests (emit Unlock w3) = requests w + Suc k \<and>
           trace (emit Unlock w3) = trace w @ ?es \<and>
           filter is_broker ?es = replicate (Suc k) (broker_call s c topic (qos (bk w))) \<and>
           filter is_Sleep ?es = replicate k (Sleep Second)"
    by (simp add: r)
  then show ?thesis by blast
qed

lemma SetGatewaySubscription_True_registry:
  assumes "SetGatewaySubscription True g w = Some (Return None, w1)"
  shows "gateways (bk w1) g \<noteq> None"
proof (cases "gateways (bk w) g \<noteq> None")
  case True
  with assms show ?thesis
    by (auto simp: SetGatewaySubscription_same)
next
  case False
  let ?w2 = "logf DebugLevel [(''gateway_id'', FBytes g), (''subscribe'', FBool True)]
               ''integration/mqtt: set gateway subscription called'' (emit Lock w)"
  from False assms obtain u w3 where
    l: "SetGatewaySubscription_for True g ?w2 = Some (Return u, w3)" and w1: "w1 = emit Unlock w3"
    by (auto simp: SetGatewaySubscription_def Let_def
             split: option.splits prod.splits result.splits)
  from SetGatewaySubscription_for_registry [OF l] show ?thesis
    by (simp add: w1)
qed

lemma world2_simps [simp]:
  "bk world2 = backend0\<lparr>gateways := [gw1 \<mapsto> ()]\<rparr>" "trace world2 = []"
  "tokens world2 n = ok_token" "requests world2 = 0"
  by (simp_all add: world2_def world0_def)

lemma registry_world_simps [simp]:
  "bk (registry_world toks) = backend0\<lparr>gateways := [gw1 \<mapsto> (), gw2 \<mapsto> ()]\<rparr>"
  "trace (registry_world toks) = []" "tokens (registry_world toks) = toks"
  "requests (registry_world toks) = 0"
  by (simp_all add: registry_world_def world0_def)

lemma SetGatewaySubscription_refused:
  assumes "(gateways (bk w) g \<noteq> None) \<noteq> s"
    and "commandTopicTemplate (bk w) g = Inr topic" "conn (bk w) = Some c"
    and "\<forall>n\<ge>requests w. failed (tokens w n)"
  shows "SetGatewaySubscription s g w = None"
proof -
  let ?w2 = "logf DebugLevel [(''gateway_id'', FBytes g), (''subscribe'', FBool s)]
               ''integration/mqtt: set gateway subscription called'' (emit Lock w)"
  have "SetGatewaySubscription_for s g ?w2 = None"
  proof (rule ccontr)
    assume "SetGatewaySubscription_for s g ?w2 \<noteq> None"
    then obtain y where "SetGatewaySubscription_for s g ?w2 = Some y" by blast
    from SetGatewaySubscription_for_accepted [OF this, of c topic] assms(2-4) show False
      by simp
  qed
  with assms(1) show ?thesis
    by (cases s) (simp_all add: SetGatewaySubscription_def Let_def)
qed

text \<open>
  C10. \<^verbatim>\<open>SetGatewaySubscription\<close> never returns an error: whatever the gateway, the
  flag and the world, its result is not a returned non-nil error. A refusal of the broker
  is absorbed by the retry loop: when the broker refuses \<open>k\<close> requests and accepts the
  next, the method returns nil, after \<open>k + 1\<close> requests when the membership had to
  change and after none when it had not; and while the broker refuses every request of a
  change, the method does not return at all.
\<close>

theorem SetGatewaySubscription_returns_nil:
  "(\<forall>e w'. SetGatewaySubscription s g w \<noteq> Some (Return (Some e), w')) \<and>
   (commandTopicTemplate (bk w) g = Inr topic \<and> conn (bk w) = Some c \<and>
    (\<forall>i<k. failed (tokens w (requests w + i))) \<and> \<not> failed (tokens w (requests w + k)) \<longrightarrow>
      (\<exists>w'. SetGatewaySubscription s g w = Some (Return None, w') \<and>
            requests w' = (if (gateways (bk w) g \<noteq> None) = s then requests w
                           else requests w + Suc k))) \<and>
   (commandTopicTemplate (bk w) g = Inr topic \<and> conn (bk w) = Some c \<and>
    (gateways (bk w) g \<noteq> None) \<noteq> s \<and> (\<forall>n\<ge>requests w. failed (tokens w n)) \<longrightarrow>
      SetGatewaySubscription s g w = None)"
proof (intro conjI allI impI)
  fix e w'
  show "SetGatewaySubscription s g w \<noteq> Some (Return (Some e), w')"
    by (auto simp: SetGatewaySubscription_def Let_def
             split: option.splits prod.splits result.splits)
next
  assume a: "commandTopicTemplate (bk w) g = Inr topic \<and> conn (bk w) = Some c \<and>
    (\<forall>i<k. failed (tokens w (requests w + i))) \<and> \<not> failed (tokens w (requests w + k))"
  show "\<exists>w'. SetGatewaySubscription s g w = Some (Return None, w') \<and>
            requests w' = (if (gateways (bk w) g \<noteq> None) = s then requests w
                           else requests w + Suc k)"
  proof (cases "(gateways (bk w) g \<noteq> None) = s")
    case True
    then show ?thesis
      by (simp add: SetGatewaySubscription_same)
  next
    case False
    from a SetGatewaySubscription_changes [OF False, of topic c k]
    obtain w' where "SetGatewaySubscription s g w = Some (Return None, w')"
      "requests w' = requests w + Suc k"
      by blast
    with False show ?thesis by simp
  qed
next
  assume "commandTopicTemplate (bk w) g = Inr topic \<and> conn (bk w) = Some c \<and>
    (gateways (bk w) g \<noteq> None) \<noteq> s \<and> (\<forall>n\<ge>requests w. failed (tokens w n))"
  then show "SetGatewaySubscription s g w = None"
    by (simp add: SetGatewaySubscription_refused)
qed

lemma gw1_neq_gw2 [simp]: "gw1 \<noteq> gw2" "gw2 \<noteq> gw1"
  by (simp_all add: gw1_def gw2_def)

theorem SetGatewaySubscription_returns_nil_witness:
  "commandTopicTemplate (bk world1) gw1 = Inr ''gateway/0102030405060708/command/#'' \<and>
   conn (bk world1) = Some 0 \<and>
   failed (tokens world1 (requests world1 + 0)) \<and> failed (tokens world1 (requests world1 + 1)) \<and>
   \<not> failed (tokens world1 (requests world1 + 2)) \<and>
   (\<exists>w'. SetGatewaySubscription True gw1 world1 = Some (Return None, w') \<and> requests w' = 3) \<and>
   gateways (bk (registry_world (\<lambda>n. bad_token))) gw1 \<noteq> None \<and>
   SetGatewaySubscription False gw1 (registry_world (\<lambda>n. bad_token)) = None"
proof -
  have a: "commandTopicTemplate (bk world1) gw1 = Inr ''gateway/0102030405060708/command/#'' \<and>
     conn (bk world1) = Some 0 \<and>
     (\<forall>i<2. failed (tokens world1 (requests world1 + i))) \<and>
     \<not> failed (tokens world1 (requests world1 + 2))"
    by simp
  from SetGatewaySubscription_returns_nil
         [of True gw1 world1 "''gateway/0102030405060708/command/#''" 0 2] a
  have 1: "\<exists>w'. SetGatewaySubscription True gw1 world1 = Some (Return None, w') \<and> requests w' = 3"
    by simp
  let ?w = "registry_world (\<lambda>n. bad_token)"
  have b: "commandTopicTemplate (bk ?w) gw1 = Inr ''gateway/0102030405060708/command/#'' \<and>
     conn (bk ?w) = Some 0 \<and> (gateways (bk ?w) gw1 \<noteq> None) \<noteq> False \<and>
     (\<forall>n\<ge>requests ?w. failed (tokens ?w n))"
    by simp
  from SetGatewaySubscription_returns_nil
         [of False gw1 ?w "''gateway/0102030405060708/command/#''" 0 0] b
  have 2: "SetGatewaySubscription False gw1 ?w = None"
    by blast
  from a 1 2 b show ?thesis by simp
qed

text \<open>
  C3 (amended). When the membership of \<open>g\<close> in the registry already equals the flag,
  \<^verbatim>\<open>SetGatewaySubscription\<close> returns nil and leaves the world as it was but for three
  entries of the trace (lock, debug log, unlock): no request to the broker, no change of
  the registry. So after a call with \<^verbatim>\<open>true\<close> that returned nil, a second call with
  \<^verbatim>\<open>true\<close> does just that; and when \<open>g\<close> is not yet in the registry and the broker
  accepts the first request, the two calls together make exactly one subscribe request.
\<close>

theorem SetGatewaySubscription_idempotent:
  "((gateways (bk w) g \<noteq> None) = s \<longrightarrow>
      SetGatewaySubscription s g w =
        Some (Return None,
          w\<lparr>trace := trace w @
             [Lock,
              Log DebugLevel [(''gateway_id'', FBytes g), (''subscribe'', FBool s)]
                ''integration/mqtt: set gateway subscription called'',
              Unlock]\<rparr>)) \<and>
   (SetGatewaySubscription True g w = Some (Return None, w1) \<longrightarrow>
      SetGatewaySubscription True g w1 =
        Some (Return None,
          w1\<lparr>trace := trace w1 @
             [Lock,
              Log DebugLevel [(''gateway_id'', FBytes g), (''subscribe'', FBool True)]
                ''integration/mqtt: set gateway subscription called'',
              Unlock]\<rparr>)) \<and>
   (gateways (bk w) g = None \<and> commandTopicTemplate (bk w) g = Inr topic \<and>
    conn (bk w) = Some c \<and> \<not> failed (tokens w (requests w)) \<longrightarrow>
      (\<exists>w2. subscribe_twice g w = Some (Return None, w2) \<and>
            filter is_broker (since w w2) = [Subscribe c topic (qos (bk w))]))"
proof (intro conjI impI)
  assume "(gateways (bk w) g \<noteq> None) = s"
  then show "SetGatewaySubscription s g w =
        Some (Return None,
          w\<lparr>trace := trace w @
             [Lock,
              Log DebugLevel [(''gateway_id'', FBytes g), (''subscribe'', FBool s)]
                ''integration/mqtt: set gateway subscription called'',
              Unlock]\<rparr>)"
    by (rule SetGatewaySubscription_same)
next
  assume "SetGatewaySubscription True g w = Some (Return None, w1)"
  then have "(gateways (bk w1) g \<noteq> None) = True"
    by (simp add: SetGatewaySubscription_True_registry)
  then show "SetGatewaySubscription True g w1 =
        Some (Return None,
          w1\<lparr>trace := trace w1 @
             [Lock,
              Log DebugLevel [(''gateway_id'', FBytes g), (''subscribe'', FBool True)]
                ''integration/mqtt: set gateway subscription called'',
              Unlock]\<rparr>)"
    by (rule SetGatewaySubscription_same)
next
  assume a: "gateways (bk w) g = None \<and> commandTopicTemplate (bk w) g = Inr topic \<and>
    conn (bk w) = Some c \<and> \<not> failed (tokens w (requests w))"
  then have ne: "(gateways (bk w) g \<noteq> None) \<noteq> True" by simp
  from a SetGatewaySubscription_changes [OF ne, of topic c 0]
  obtain w1 es where
    r: "SetGatewaySubscription True g w = Some (Return None, w1)"
       "trace w1 = trace w @ es"
       "filter is_broker es = [Subscribe c topic (qos (bk w))]"
    by (auto simp: broker_call_def)
  let ?w2 = "w1\<lparr>trace := trace w1 @
             [Lock,
              Log DebugLevel [(''gateway_id'', FBytes g), (''subscribe'', FBool True)]
                ''integration/mqtt: set gateway subscription called'',
              Unlock]\<rparr>"
  from r(1) have "(gateways (bk w1) g \<noteq> None) = True"
    by (simp add: SetGatewaySubscription_True_registry)
  then have "SetGatewaySubscription True g w1 = Some (Return None, ?w2)"
    by (rule SetGatewaySubscription_same)
  with r have "subscribe_twice g w = Some (Return None, ?w2) \<and>
            filter is_broker (since w ?w2) = [Subscribe c topic (qos (bk w))]"
    by (simp add: subscribe_twice_def since_def)
  then show "\<exists>w2. subscribe_twice g w = Some (Return None, w2) \<and>
            filter is_broker (since w w2) = [Subscribe c topic (qos (bk w))]"
    by blast
qed

lemma SetGatewaySubscription_world0:
  "SetGatewaySubscription True gw1 world0 =
     Some (Return None,
       world0\<lparr>bk := backend0\<lparr>gateways := [gw1 \<mapsto> ()]\<rparr>,
              trace := [Lock,
                        Log DebugLevel [(''gateway_id'', FBytes gw1), (''subscribe'', FBool True)]
                          ''integration/mqtt: set gateway subscription called'',
                        Log InfoLevel [(''topic'', FStr ''gateway/0102030405060708/command/#''),
                                       (''qos'', FQos 0)]
                          ''integration/mqtt: subscribing to topic'',
                        Subscribe 0 ''gateway/0102030405060708/command/#'' 0,
                        Unlock],
              requests := 1\<rparr>)"
  unfolding SetGatewaySubscription_def
  by (subst SetGatewaySubscription_for.simps)
     (simp add: Let_def subscribeGateway_def request_def logf_def emit_def world0_def)

theorem SetGatewaySubscription_idempotent_witness:
  "(gateways (bk world2) gw1 \<noteq> None) = True \<and>
   SetGatewaySubscription True gw1 world2 =
     Some (Return None,
       world2\<lparr>trace := trace world2 @
          [Lock,
           Log DebugLevel [(''gateway_id'', FBytes gw1), (''subscribe'', FBool True)]
             ''integration/mqtt: set gateway subscription called'',
           Unlock]\<rparr>) \<and>
   gateways (bk world0) gw1 = None \<and>
   commandTopicTemplate (bk world0) gw1 = Inr ''gateway/0102030405060708/command/#'' \<and>
   conn (bk world0) = Some 0 \<and> \<not> failed (tokens world0 (requests world0)) \<and>
   (\<exists>w1. SetGatewaySubscription True gw1 world0 = Some (Return None, w1) \<and>
         SetGatewaySubscription True gw1 w1 =
           Some (Return None,
             w1\<lparr>trace := trace w1 @
                [Lock,
                 Log DebugLevel [(''gateway_id'', FBytes gw1), (''subscribe'', FBool True)]
                   ''integration/mqtt: set gateway subscription called'',
                 Unlock]\<rparr>)) \<and>
   (\<exists>w2. subscribe_twice gw1 world0 = Some (Return None, w2) \<and>
         filter is_broker (since world0 w2) =
           [Subscribe 0 ''gateway/0102030405060708/command/#'' 0])"
proof -
  let ?t = "''gateway/0102030405060708/command/#''"
  have a: "(gateways (bk world2) gw1 \<noteq> None) = True"
    by simp
  have c: "gateways (bk world0) gw1 = None \<and> commandTopicTemplate (bk world0) gw1 = Inr ?t \<and>
      conn (bk world0) = Some 0 \<and> \<not> failed (tokens world0 (requests world0))"
    by simp
  note b = SetGatewaySubscription_world0
  from SetGatewaySubscription_idempotent [of world2 gw1 True] a
  have 1: "SetGatewaySubscription True gw1 world2 =
     Some (Return None,
       world2\<lparr>trace := trace world2 @
          [Lock,
           Log DebugLevel [(''gateway_id'', FBytes gw1), (''subscribe'', FBool True)]
             ''integration/mqtt: set gateway subscription called'',
           Unlock]\<rparr>)"
    by blast
  from SetGatewaySubscription_idempotent [of world0 gw1 _ _ ?t 0] b
  have 2: "\<exists>w1. SetGatewaySubscription True gw1 world0 = Some (Return None, w1) \<and>
         SetGatewaySubscription True gw1 w1 =
           Some (Return None,
             w1\<lparr>trace := trace w1 @
                [Lock,
                 Log DebugLevel [(''gateway_id'', FBytes gw1), (''subscribe'', FBool True)]
                   ''integration/mqtt: set gateway subscription called'',
                 Unlock]\<rparr>)"
    by blast
  from SetGatewaySubscription_idempotent [of world0 gw1 _ _ ?t 0] c
  have 3: "\<exists>w2. subscribe_twice gw1 world0 = Some (Return None, w2) \<and>
         filter is_broker (since world0 w2) = [Subscribe 0 ?t 0]"
    by simp
  from a c 1 2 3 show ?thesis by blast
qed

text \<open>
  Twice in a row is not always one subscribe call: none when the gateway is already in
  the registry, three when the broker refuses the first two requests.
\<close>

theorem subscribe_twice_counterexample:
  "gateways (bk world2) gw1 = Some () \<and>
   map_option (\<lambda>(r, w'). (r, filter is_broker (since world2 w'))) (subscribe_twice gw1 world2) =
     Some (Return None, []) \<and>
   gateways (bk world1) gw1 = None \<and>
   map_option (\<lambda>(r, w'). (r, filter is_broker (since world1 w'))) (subscribe_twice gw1 world1) =
     Some (Return None,
       [Subscribe 0 ''gateway/0102030405060708/command/#'' 0,
        Subscribe 0 ''gateway/0102030405060708/command/#'' 0,
        Subscribe 0 ''gateway/0102030405060708/command/#'' 0])"
proof -
  let ?t = "''gateway/0102030405060708/command/#''"
  let ?again = "[Lock,
           Log DebugLevel [(''gateway_id'', FBytes gw1), (''subscribe'', FBool True)]
             ''integration/mqtt: set gateway subscription called'',
           Unlock]"
  have s2: "SetGatewaySubscription True gw1 world2 =
      Some (Return None, world2\<lparr>trace := trace world2 @ ?again\<rparr>)"
    by (rule SetGatewaySubscription_same) simp
  have "SetGatewaySubscription True gw1 (world2\<lparr>trace := trace world2 @ ?again\<rparr>) =
      Some (Return None, world2\<lparr>trace := trace world2 @ ?again\<rparr>
         \<lparr>trace := trace (world2\<lparr>trace := trace world2 @ ?again\<rparr>) @ ?again\<rparr>)"
    by (rule SetGatewaySubscription_same) (simp add: world2_def)
  with s2 have A: "map_option (\<lambda>(r, w'). (r, filter is_broker (since world2 w')))
      (subscribe_twice gw1 world2) = Some (Return None, [])"
    by (simp add: subscribe_twice_def since_def)
  have ne: "(gateways (bk world1) gw1 \<noteq> None) \<noteq> True" by simp
  have p: "commandTopicTemplate (bk world1) gw1 = Inr ?t" "conn (bk world1) = Some 0"
    "\<forall>i<2. failed (tokens world1 (requests world1 + i))"
    "\<not> failed (tokens world1 (requests world1 + 2))"
    by simp_all
  from SetGatewaySubscription_changes [OF ne p] obtain w1 es where
    r: "SetGatewaySubscription True gw1 world1 = Some (Return None, w1)"
       "trace w1 = trace world1 @ es"
       "filter is_broker es = replicate (Suc 2) (broker_call True 0 ?t (qos (bk world1)))"
    by blast
  from r(1) have "(gateways (bk w1) gw1 \<noteq> None) = True"
    by (simp add: SetGatewaySubscription_True_registry)
  then have "SetGatewaySubscription True gw1 w1 = Some (Return None, w1\<lparr>trace := trace w1 @ ?again\<rparr>)"
    by (rule SetGatewaySubscription_same)
  with r have B: "map_option (\<lambda>(r, w'). (r, filter is_broker (since world1 w')))
      (subscribe_twice gw1 world1) =
     Some (Return None, [Subscribe 0 ?t 0, Subscribe 0 ?t 0, Subscribe 0 ?t 0])"
    by (simp add: subscribe_twice_def since_def broker_call_def eval_nat_numeral)
  from A B show ?thesis by simp
qed

subsection \<open>Re-subscription after a reconnect\<close>

text \<open>
  The retry loop of \<^verbatim>\<open>onConnected\<close> for one gateway: every refused request is followed
  by a sleep of one second and another request.
\<close>

lemma onConnected_for_ends:
  assumes "commandTopicTemplate (bk w) g = Inr topic" "conn (bk w) = Some c"
    and "\<forall>i<k. failed (tokens w (requests w + i))"
    and "\<not> failed (tokens w (requests w + k))"
  shows "\<exists>w' es. onConnected_for g w = Some (Return (), w') \<and>
           bk w' = bk w \<and> tokens w' = tokens w \<and> requests w' = requests w + Suc k \<and>
           trace w' = trace w @ es \<and>
           filter (\<lambda>e. is_broker e \<or> is_Sleep e) es =
             concat (replicate k [Subscribe c topic (qos (bk w)), Sleep Second]) @
             [Subscribe c topic (qos (bk w))]"
  using assms
proof (induction k arbitrary: w)
  case 0
  then have ok: "\<not> failed (tokens w (requests w))" by simp
  note one = subscribeGateway_connected [OF 0(1,2)]
  from ok have "onConnected_for g w = Some (Return (), snd (subscribeGateway g w))"
    by (subst onConnected_for.simps) (simp add: split_beta one)
  then show ?case
    by (simp add: one)
next
  case (Suc k)
  from Suc.prems(3) have bad: "failed (tokens w (requests w))"
    by (metis add.right_neutral zero_less_Suc)
  let ?err = "errors_Wrap (the (Error (tokens w (requests w)))) ''subscribe topic error''"
  let ?w2 = "sleep Second (logf ErrorLevel [(''error'', FErr ?err), (''gateway_id'', FBytes g)]
               ''integration/mqtt: subscribe gateway error'' (snd (subscribeGateway g w)))"
  note one = subscribeGateway_connected [OF Suc.prems(1,2)]
  from bad have step: "onConnected_for g w = onConnected_for g ?w2"
    by (subst onConnected_for.simps) (simp add: split_beta one)
  have p1: "commandTopicTemplate (bk ?w2) g = Inr topic" "conn (bk ?w2) = Some c"
    using Suc.prems(1,2) by (simp_all add: one)
  have p3: "\<forall>i<k. failed (tokens ?w2 (requests ?w2 + i))"
    using Suc.prems(3) by (simp add: one) (metis Suc_less_eq add_Suc_right)
  have p4: "\<not> failed (tokens ?w2 (requests ?w2 + k))"
    using Suc.prems(4) by (simp add: one)
  from Suc.IH [OF p1 p3 p4] obtain w' es where
    r: "onConnected_for g ?w2 = Some (Return (), w')"
      "bk w' = bk ?w2" "tokens w' = tokens ?w2" "requests w' = requests ?w2 + Suc k"
      "trace w' = trace ?w2 @ es"
      "filter (\<lambda>e. is_broker e \<or> is_Sleep e) es =
         concat (replicate k [Subscribe c topic (qos (bk ?w2)), Sleep Second]) @
         [Subscribe c topic (qos (bk ?w2))]"
    by blast
  show ?case
    using step r by (simp add: one)
qed

lemma onConnected_for_accepted:
  assumes "onConnected_for g w = Some y"
  shows "conn (bk w) = Some c \<longrightarrow> commandTopicTemplate (bk w) g = Inr topic \<longrightarrow>
         (\<exists>k. \<not> failed (tokens w (requests w + k)))"
  using assms
proof (induction arbitrary: c topic rule: onConnected_for.raw_induct [rotated 1, consumes 1, case_names 1])
  case (1 f g w y)
  show ?case
  proof (intro impI)
    assume c: "conn (bk w) = Some c" and t: "commandTopicTemplate (bk w) g = Inr topic"
    show "\<exists>k. \<not> failed (tokens w (requests w + k))"
    proof (cases "failed (tokens w (requests w))")
      case False
      then show ?thesis by (metis add.right_neutral)
    next
      case True
      let ?err = "errors_Wrap (the (Error (tokens w (requests w)))) ''subscribe topic error''"
      let ?w2 = "sleep Second (logf ErrorLevel [(''error'', FErr ?err), (''gateway_id'', FBytes g)]
               ''integration/mqtt: subscribe gateway error'' (snd (subscribeGateway g w)))"
      note one = subscribeGateway_connected [OF t c]
      from 1(2) True have "f g ?w2 = Some y"
        by (simp add: split_beta one)
      from 1(1) [OF this, of c topic] obtain k where "\<not> failed (tokens ?w2 (requests ?w2 + k))"
        using c t by (auto simp: one)
      then have "\<not> failed (tokens w (requests w + Suc k))"
        by (simp add: one)
      then show ?thesis by blast
    qed
  qed
qed

text \<open>
  The keys \<^verbatim>\<open>range\<close> visits are the keys of the map, each once, whatever the rank;
  and every order of the keys is the order of some rank.
\<close>

lemma set_range_keys: "finite (dom m) \<Longrightarrow> set (range_keys rank m) = dom m"
  by (simp add: range_keys_def image_image)

lemma distinct_range_keys: "distinct (range_keys rank m)"
  unfolding range_keys_def
proof (cases "finite (dom m)")
  case True
  then have "inj_on snd (set (sorted_list_of_set ((\<lambda>g. (rank g, g)) ` dom m)))"
    by (auto simp: inj_on_def)
  then show "distinct (map snd (sorted_list_of_set ((\<lambda>g. (rank g, g)) ` dom m)))"
    by (simp add: distinct_map)
next
  case False
  then have "infinite ((\<lambda>g. (rank g, g)) ` dom m)"
    by (metis (no_types, lifting) finite_imageD inj_onI prod.inject)
  then show "distinct (map snd (sorted_list_of_set ((\<lambda>g. (rank g, g)) ` dom m)))"
    by simp
qed

lemma length_range_keys: "length (range_keys rank m) = card (dom m)"
proof -
  have "inj_on (\<lambda>g. (rank g, g)) (dom m)" by (simp add: inj_on_def)
  then show ?thesis by (simp add: range_keys_def card_image)
qed

lemma range_keys_eq:
  assumes "set keys = dom m" "distinct keys" "sorted (map (\<lambda>g. (rank g, g)) keys)"
  shows "range_keys rank m = keys"
proof -
  have d: "distinct (map (\<lambda>g. (rank g, g)) keys)"
    using assms(2) by (simp add: distinct_map inj_on_def)
  have "(\<lambda>g. (rank g, g)) ` dom m = set (map (\<lambda>g. (rank g, g)) keys)"
    using assms(1) by simp
  then have "sorted_list_of_set ((\<lambda>g. (rank g, g)) ` dom m) = map (\<lambda>g. (rank g, g)) keys"
    using assms(3) d by (simp only: sorted_list_of_set.idem_if_sorted_distinct)
  then show ?thesis
    by (simp add: range_keys_def comp_def)
qed

lemma range_keys_any_order:
  assumes "set keys = dom m" "distinct keys"
  shows "range_keys (\<lambda>g. length (takeWhile (\<lambda>x. x \<noteq> g) keys)) m = keys"
proof (rule range_keys_eq [OF assms])
  let ?rank = "\<lambda>g. length (takeWhile (\<lambda>x. x \<noteq> g) keys)"
  have r: "?rank (keys ! i) = i" if "i < length keys" for i
  proof -
    have "takeWhile (\<lambda>x. x \<noteq> keys ! i) keys = take i keys"
      using that assms(2) by (intro takeWhile_eq_take_P_nth) (auto simp: nth_eq_iff_index_eq)
    with that show ?thesis by simp
  qed
  show "sorted (map (\<lambda>g. (?rank g, g)) keys)"
    unfolding sorted_iff_nth_mono
  proof (intro allI impI)
    fix i j assume "i \<le> j" "j < length (map (\<lambda>g. (?rank g, g)) keys)"
    then have "i < length keys" "j < length keys" by simp_all
    with \<open>i \<le> j\<close> show "map (\<lambda>g. (?rank g, g)) keys ! i \<le> map (\<lambda>g. (?rank g, g)) keys ! j"
      by (cases "i = j") (simp_all add: r less_eq_prod_def)
  qed
qed

lemma accepted_after_accepting:
  "\<forall>n\<ge>m. \<not> failed (toks n) \<Longrightarrow> accepted_after toks m (replicate l 0)"
  by (induction l arbitrary: m) simp_all

lemma resubscribed_accepting:
  "resubscribed c q topic keys (replicate (length keys) 0) = map (\<lambda>g. Subscribe c (topic g) q) keys"
  by (induction keys) (simp_all add: resubscribed_def)

lemma resubscribed_Cons:
  "resubscribed c q topic (g # keys) (k # ks) =
     concat (replicate k [Subscribe c (topic g) q, Sleep Second]) @
     Subscribe c (topic g) q # resubscribed c q topic keys ks"
  by (simp add: resubscribed_def)

lemma resubscribed_Nil [simp]: "resubscribed c q topic [] ks = []"
  by (simp add: resubscribed_def)

text \<open>The pass over the keys, whatever the broker refuses before it accepts.\<close>

lemma onConnected_range_ends:
  assumes "conn (bk w) = Some c"
    and "\<forall>g\<in>set keys. commandTopicTemplate (bk w) g = Inr (topic g)"
    and "length ks = length keys"
    and "accepted_after (tokens w) (requests w) ks"
  shows "\<exists>w' es. onConnected_range keys w = Some (Return (), w') \<and>
           bk w' = bk w \<and> tokens w' = tokens w \<and>
           requests w' = requests w + sum_list (map Suc ks) \<and>
           trace w' = trace w @ es \<and>
           filter (\<lambda>e. is_broker e \<or> is_Sleep e) es = resubscribed c (qos (bk w)) topic keys ks"
  using assms
proof (induction keys arbitrary: w ks)
  case Nil
  then show ?case by simp
next
  case (Cons g keys)
  from Cons.prems(3) obtain k ks' where ks: "ks = k # ks'" "length ks' = length keys"
    by (cases ks) auto
  have t: "commandTopicTemplate (bk w) g = Inr (topic g)"
    using Cons.prems(2) by simp
  have ok: "\<forall>i<k. failed (tokens w (requests w + i))" "\<not> failed (tokens w (requests w + k))"
    and rest: "accepted_after (tokens w) (requests w + Suc k) ks'"
    using Cons.prems(4) by (simp_all add: ks)
  from onConnected_for_ends [OF t Cons.prems(1) ok] obtain w1 es1 where
    a: "onConnected_for g w = Some (Return (), w1)" "bk w1 = bk w" "tokens w1 = tokens w"
       "requests w1 = requests w + Suc k" "trace w1 = trace w @ es1"
       "filter (\<lambda>e. is_broker e \<or> is_Sleep e) es1 =
          concat (replicate k [Subscribe c (topic g) (qos (bk w)), Sleep Second]) @
          [Subscribe c (topic g) (qos (bk w))]"
    by blast
  have p: "conn (bk w1) = Some c"
    "\<forall>g\<in>set keys. commandTopicTemplate (bk w1) g = Inr (topic g)"
    "length ks' = length keys"
    "accepted_after (tokens w1) (requests w1) ks'"
    using Cons.prems a ks rest by simp_all
  from Cons.IH [OF p] obtain w' es where
    b: "onConnected_range keys w1 = Some (Return (), w')" "bk w' = bk w1" "tokens w' = tokens w1"
       "requests w' = requests w1 + sum_list (map Suc ks')" "trace w' = trace w1 @ es"
       "filter (\<lambda>e. is_broker e \<or> is_Sleep e) es = resubscribed c (qos (bk w1)) topic keys ks'"
    by blast
  have "onConnected_range (g # keys) w = Some (Return (), w') \<and>
           bk w' = bk w \<and> tokens w' = tokens w \<and>
           requests w' = requests w + sum_list (map Suc ks) \<and>
           trace w' = trace w @ (es1 @ es) \<and>
           filter (\<lambda>e. is_broker e \<or> is_Sleep e) (es1 @ es) =
             resubscribed c (qos (bk w)) topic (g # keys) ks"
    using a b by (simp add: ks resubscribed_Cons)
  then show ?case by blast
qed

text \<open>
  The pass does not go past an identity that the broker keeps refusing: it neither
  returns nor moves on to the next identity.
\<close>

lemma onConnected_range_refused:
  assumes "conn (bk w) = Some c"
    and "\<forall>g\<in>set keys. commandTopicTemplate (bk w) g = Inr (topic g)"
    and "length ks < length keys"
    and "accepted_after (tokens w) (requests w) ks"
    and "\<forall>n\<ge>requests w + sum_list (map Suc ks). failed (tokens w n)"
  shows "onConnected_range keys w = None"
  using assms
proof (induction ks arbitrary: keys w)
  case Nil
  then obtain g rest where k: "keys = g # rest" by (cases keys) auto
  with Nil.prems(2) have t: "commandTopicTemplate (bk w) g = Inr (topic g)" by simp
  have "onConnected_for g w = None"
  proof (rule ccontr)
    assume "onConnected_for g w \<noteq> None"
    then obtain y where "onConnected_for g w = Some y" by blast
    from onConnected_for_accepted [OF this, of c "topic g"] Nil.prems(1,5) t show False
      by simp
  qed
  then show ?case by (simp add: k)
next
  case (Cons k ks)
  then obtain g rest where keys: "keys = g # rest" "length ks < length rest"
    by (cases keys) auto
  have t: "commandTopicTemplate (bk w) g = Inr (topic g)"
    using Cons.prems(2) keys by simp
  have ok: "\<forall>i<k. failed (tokens w (requests w + i))" "\<not> failed (tokens w (requests w + k))"
    and rest: "accepted_after (tokens w) (requests w + Suc k) ks"
    using Cons.prems(4) by simp_all
  from onConnected_for_ends [OF t Cons.prems(1) ok] obtain w1 where
    a: "onConnected_for g w = Some (Return (), w1)" "bk w1 = bk w" "tokens w1 = tokens w"
       "requests w1 = requests w + Suc k"
    by blast
  have p: "conn (bk w1) = Some c"
    "\<forall>g\<in>set rest. commandTopicTemplate (bk w1) g = Inr (topic g)"
    "length ks < length rest"
    "accepted_after (tokens w1) (requests w1) ks"
    "\<forall>n\<ge>requests w1 + sum_list (map Suc ks). failed (tokens w1 n)"
    using Cons.prems a keys rest by (simp_all add: add.assoc)
  from Cons.IH [OF p] a(1) show ?case
    by (simp add: keys)
qed

lemma filter_broker_of_both:
  "filter (\<lambda>e. is_broker e \<or> is_Sleep e) es = map (\<lambda>g. Subscribe c (topic g) q) keys \<Longrightarrow>
   filter is_broker es = map (\<lambda>g. Subscribe c (topic g) q) keys"
proof -
  assume a: "filter (\<lambda>e. is_broker e \<or> is_Sleep e) es = map (\<lambda>g. Subscribe c (topic g) q) keys"
  have "(\<lambda>x. (is_broker x \<or> is_Sleep x) \<and> is_broker x) = is_broker"
    by auto
  then have "filter is_broker es = filter is_broker (filter (\<lambda>e. is_broker e \<or> is_Sleep e) es)"
    by simp
  also have "\<dots> = filter is_broker (map (\<lambda>g. Subscribe c (topic g) q) keys)"
    by (simp only: a)
  also have "\<dots> = map (\<lambda>g. Subscribe c (topic g) q) keys"
    by (simp add: filter_map comp_def)
  finally show ?thesis .
qed

text \<open>
  C4. On a connected backend whose registry is finite (a Go map) and whose command topic
  renders for each identity of it, \<^verbatim>\<open>onConnected\<close> visits exactly the identities of
  the registry, each once, in the order of the runtime's rank, and any order of them is
  possible. When the broker refuses \<open>k\<close> requests before it accepts one, for each
  identity in turn (the list \<open>ks\<close>), \<^verbatim>\<open>onConnected\<close> returns, and what it asked of the
  broker and slept is, identity by identity, \<open>k\<close> times a subscribe request for its
  command topic and a sleep of one second, then the subscribe request that was accepted.
  With a broker that accepts every request that is exactly one subscribe request per
  identity of the registry, two for a registry of two, whatever happened before. And when
  the broker, after some identities, refuses every request, \<^verbatim>\<open>onConnected\<close> does not
  return: it retries for ever and visits no further identity.
\<close>

theorem onConnected_resubscribes:
  assumes "conn (bk w) = Some c" and "finite (dom (gateways (bk w)))"
    and "\<forall>g\<in>dom (gateways (bk w)). commandTopicTemplate (bk w) g = Inr (topic g)"
  shows
    "set (range_keys rank (gateways (bk w))) = dom (gateways (bk w)) \<and>
     distinct (range_keys rank (gateways (bk w))) \<and>
     (distinct keys \<and> set keys = dom (gateways (bk w)) \<longrightarrow>
        (\<exists>rank'. range_keys rank' (gateways (bk w)) = keys)) \<and>
     (length ks = card (dom (gateways (bk w))) \<and> accepted_after (tokens w) (requests w) ks \<longrightarrow>
        (\<exists>w'. onConnected rank w = Some (Return (), w') \<and> bk w' = bk w \<and>
              filter (\<lambda>e. is_broker e \<or> is_Sleep e) (since w w') =
                resubscribed c (qos (bk w)) topic (range_keys rank (gateways (bk w))) ks)) \<and>
     ((\<forall>n\<ge>requests w. \<not> failed (tokens w n)) \<longrightarrow>
        (\<exists>w'. onConnected rank w = Some (Return (), w') \<and> bk w' = bk w \<and>
              filter is_broker (since w w') =
                map (\<lambda>g. Subscribe c (topic g) (qos (bk w))) (range_keys rank (gateways (bk w))) \<and>
              length (filter is_broker (since w w')) = card (dom (gateways (bk w))))) \<and>
     (length ks < card (dom (gateways (bk w))) \<and> accepted_after (tokens w) (requests w) ks \<and>
      (\<forall>n\<ge>requests w + sum_list (map Suc ks). failed (tokens w n)) \<longrightarrow>
        onConnected rank w = None)"
proof -
  let ?keys = "range_keys rank (gateways (bk w))"
  let ?w3 = "logf InfoLevel [] ''integration/mqtt: connected to mqtt broker''
               (emit RLock (emit (CounterInc ''mqttConnectCounter'' []) w))"
  have s: "set ?keys = dom (gateways (bk w))"
    using assms(2) by (rule set_range_keys)
  have d: "distinct ?keys"
    by (rule distinct_range_keys)
  have n: "length ?keys = card (dom (gateways (bk w)))"
    by (rule length_range_keys)
  have p: "conn (bk ?w3) = Some c" "\<forall>g\<in>set ?keys. commandTopicTemplate (bk ?w3) g = Inr (topic g)"
    using assms(1,3) s by simp_all
  have any: "distinct keys \<and> set keys = dom (gateways (bk w)) \<longrightarrow>
        (\<exists>rank'. range_keys rank' (gateways (bk w)) = keys)"
    using range_keys_any_order [of keys "gateways (bk w)"] by blast
  have pass: "\<exists>w'. onConnected rank w = Some (Return (), w') \<and> bk w' = bk w \<and>
              filter (\<lambda>e. is_broker e \<or> is_Sleep e) (since w w') =
                resubscribed c (qos (bk w)) topic ?keys ks'"
    if a: "length ks' = card (dom (gateways (bk w)))" "accepted_after (tokens w) (requests w) ks'"
    for ks'
  proof -
    have q: "length ks' = length ?keys" "accepted_after (tokens ?w3) (requests ?w3) ks'"
      using a n by simp_all
    from onConnected_range_ends [OF p q] obtain w4 es where
      r: "onConnected_range ?keys ?w3 = Some (Return (), w4)" "bk w4 = bk ?w3"
         "trace w4 = trace ?w3 @ es"
         "filter (\<lambda>e. is_broker e \<or> is_Sleep e) es = resubscribed c (qos (bk ?w3)) topic ?keys ks'"
      by blast
    have "onConnected rank w = Some (Return (), emit RUnlock w4) \<and> bk (emit RUnlock w4) = bk w \<and>
              filter (\<lambda>e. is_broker e \<or> is_Sleep e) (since w (emit RUnlock w4)) =
                resubscribed c (qos (bk w)) topic ?keys ks'"
      using r by (simp add: onConnected_def Let_def since_def)
    then show ?thesis by blast
  qed
  have acc: "\<exists>w'. onConnected rank w = Some (Return (), w') \<and> bk w' = bk w \<and>
              filter is_broker (since w w') = map (\<lambda>g. Subscribe c (topic g) (qos (bk w))) ?keys \<and>
              length (filter is_broker (since w w')) = card (dom (gateways (bk w)))"
    if ok: "\<forall>n\<ge>requests w. \<not> failed (tokens w n)"
  proof -
    let ?ks = "replicate (length ?keys) 0"
    have "length ?ks = card (dom (gateways (bk w)))" "accepted_after (tokens w) (requests w) ?ks"
      using n ok by (simp_all add: accepted_after_accepting)
    from pass [OF this] obtain w' where
      r: "onConnected rank w = Some (Return (), w')" "bk w' = bk w"
         "filter (\<lambda>e. is_broker e \<or> is_Sleep e) (since w w') =
            map (\<lambda>g. Subscribe c (topic g) (qos (bk w))) ?keys"
      by (auto simp: resubscribed_accepting)
    from r(3) have "filter is_broker (since w w') = map (\<lambda>g. Subscribe c (topic g) (qos (bk w))) ?keys"
      by (rule filter_broker_of_both)
    with r n show ?thesis by simp
  qed
  have ref: "onConnected rank w = None"
    if a: "length ks < card (dom (gateways (bk w)))" "accepted_after (tokens w) (requests w) ks"
      "\<forall>n\<ge>requests w + sum_list (map Suc ks). failed (tokens w n)"
  proof -
    have q: "length ks < length ?keys" "accepted_after (tokens ?w3) (requests ?w3) ks"
      "\<forall>n\<ge>requests ?w3 + sum_list (map Suc ks). failed (tokens ?w3 n)"
      using a n by simp_all
    from onConnected_range_refused [OF p q] show ?thesis
      by (simp add: onConnected_def Let_def)
  qed
  from s d any pass [of ks] acc ref show ?thesis by blast
qed

lemma registry_world_keys:
  "range_keys (\<lambda>g. if g = gw1 then 0 else 1) [gw1 \<mapsto> (), gw2 \<mapsto> ()] = [gw1, gw2]"
  "range_keys (\<lambda>g. if g = gw2 then 0 else 1) [gw1 \<mapsto> (), gw2 \<mapsto> ()] = [gw2, gw1]"
  by (rule range_keys_eq; auto simp: less_eq_prod_def)+

theorem onConnected_resubscribes_witness:
  "conn (bk (registry_world (\<lambda>n. ok_token))) = Some 0 \<and>
   finite (dom (gateways (bk (registry_world (\<lambda>n. ok_token))))) \<and>
   dom (gateways (bk (registry_world (\<lambda>n. ok_token)))) = {gw1, gw2} \<and>
   commandTopicTemplate (bk (registry_world (\<lambda>n. ok_token))) gw1 = Inr ''gateway/0102030405060708/command/#'' \<and>
   commandTopicTemplate (bk (registry_world (\<lambda>n. ok_token))) gw2 = Inr ''gateway/0807060504030201/command/#'' \<and>
   (\<exists>w'. onConnected (\<lambda>g. if g = gw1 then 0 else 1) (registry_world (\<lambda>n. ok_token)) =
           Some (Return (), w') \<and>
         filter is_broker (since (registry_world (\<lambda>n. ok_token)) w') =
           [Subscribe 0 ''gateway/0102030405060708/command/#'' 0,
            Subscribe 0 ''gateway/0807060504030201/command/#'' 0]) \<and>
   (\<exists>w'. onConnected (\<lambda>g. if g = gw2 then 0 else 1) (registry_world (\<lambda>n. ok_token)) =
           Some (Return (), w') \<and>
         filter is_broker (since (registry_world (\<lambda>n. ok_token)) w') =
           [Subscribe 0 ''gateway/0807060504030201/command/#'' 0,
            Subscribe 0 ''gateway/0102030405060708/command/#'' 0]) \<and>
   accepted_after (\<lambda>n. if n < 2 then bad_token else ok_token) 0 [2, 0] \<and>
   (\<exists>w'. onConnected (\<lambda>g. if g = gw1 then 0 else 1)
           (registry_world (\<lambda>n. if n < 2 then bad_token else ok_token)) = Some (Return (), w') \<and>
         filter (\<lambda>e. is_broker e \<or> is_Sleep e)
           (since (registry_world (\<lambda>n. if n < 2 then bad_token else ok_token)) w') =
           [Subscribe 0 ''gateway/0102030405060708/command/#'' 0, Sleep Second,
            Subscribe 0 ''gateway/0102030405060708/command/#'' 0, Sleep Second,
            Subscribe 0 ''gateway/0102030405060708/command/#'' 0,
            Subscribe 0 ''gateway/0807060504030201/command/#'' 0]) \<and>
   accepted_after (\<lambda>n. if n = 0 then ok_token else bad_token) 0 [0] \<and>
   onConnected (\<lambda>g. if g = gw1 then 0 else 1)
     (registry_world (\<lambda>n. if n = 0 then ok_token else bad_token)) = None"
proof -
  let ?topic = "\<lambda>g. if g = gw1 then ''gateway/0102030405060708/command/#''
                    else ''gateway/0807060504030201/command/#''"
  let ?r1 = "\<lambda>g::EUI64. if g = gw1 then 0 else (1::nat)"
  let ?r2 = "\<lambda>g::EUI64. if g = gw2 then 0 else (1::nat)"
  have h: "conn (bk (registry_world toks)) = Some 0"
    "finite (dom (gateways (bk (registry_world toks))))"
    "\<forall>g\<in>dom (gateways (bk (registry_world toks))).
       commandTopicTemplate (bk (registry_world toks)) g = Inr (?topic g)"
    for toks
    by auto
  have c: "card (dom (gateways (bk (registry_world toks)))) = 2" for toks
    by (simp add: card_insert_if)
  have a1: "accepted_after (\<lambda>n. if n < 2 then bad_token else ok_token) 0 [2, 0]"
    and a2: "accepted_after (\<lambda>n. if n = 0 then ok_token else bad_token) 0 [0]"
    by simp_all
  have 1: "\<exists>w'. onConnected ?r1 (registry_world (\<lambda>n. ok_token)) = Some (Return (), w') \<and>
         filter is_broker (since (registry_world (\<lambda>n. ok_token)) w') =
           [Subscribe 0 ''gateway/0102030405060708/command/#'' 0,
            Subscribe 0 ''gateway/0807060504030201/command/#'' 0]"
    using onConnected_resubscribes [OF h [of "\<lambda>n. ok_token"], of ?r1 "[]" "[]"] by (auto simp: registry_world_keys)
  have 2: "\<exists>w'. onConnected ?r2 (registry_world (\<lambda>n. ok_token)) = Some (Return (), w') \<and>
         filter is_broker (since (registry_world (\<lambda>n. ok_token)) w') =
           [Subscribe 0 ''gateway/0807060504030201/command/#'' 0,
            Subscribe 0 ''gateway/0102030405060708/command/#'' 0]"
    using onConnected_resubscribes [OF h [of "\<lambda>n. ok_token"], of ?r2 "[]" "[]"] by (auto simp: registry_world_keys)
  have 3: "\<exists>w'. onConnected ?r1 (registry_world (\<lambda>n. if n < 2 then bad_token else ok_token)) =
           Some (Return (), w') \<and>
         filter (\<lambda>e. is_broker e \<or> is_Sleep e)
           (since (registry_world (\<lambda>n. if n < 2 then bad_token else ok_token)) w') =
           [Subscribe 0 ''gateway/0102030405060708/command/#'' 0, Sleep Second,
            Subscribe 0 ''gateway/0102030405060708/command/#'' 0, Sleep Second,
            Subscribe 0 ''gateway/0102030405060708/command/#'' 0,
            Subscribe 0 ''gateway/0807060504030201/command/#'' 0]"
    using onConnected_resubscribes [OF h [of "\<lambda>n. if n < 2 then bad_token else ok_token"], of ?r1 "[]" "[2, 0]"] a1
    by (auto simp: registry_world_keys c resubscribed_def eval_nat_numeral)
  have 4: "onConnected ?r1 (registry_world (\<lambda>n. if n = 0 then ok_token else bad_token)) = None"
    using onConnected_resubscribes [OF h [of "\<lambda>n. if n = 0 then ok_token else bad_token"], of ?r1 "[]" "[0]"] a2
    by (simp add: c)
  have dm: "dom (gateways (bk (registry_world (\<lambda>n. ok_token)))) = {gw1, gw2}"
    by auto
  from h(1,2) [of "\<lambda>n. ok_token"] dm a1 a2 1 2 3 4 show ?thesis by simp
qed

subsection \<open>Connecting\<close>

lemma connect_fields [simp]:
  "tokens (snd (connect w)) = tokens w"
  "auth_Update (snd (connect w)) = auth_Update w"
  "updates (snd (connect w)) = Suc (updates w)"
  "terminateOnConnectError (bk (snd (connect w))) = terminateOnConnectError (bk w)"
  "requests (snd (connect w)) =
     (if auth_Update w (updates w) = None then Suc (requests w) else requests w)"
  "clients (snd (connect w)) =
     (if auth_Update w (updates w) = None then Suc (clients w) else clients w)"
  by (auto simp: connect_def Update_def paho_NewClient_def request_def Let_def split_beta emit_def
           split: option.splits bool.splits)

lemma fst_connect:
  "fst (connect w) =
     (case auth_Update w (updates w) of
        Some err \<Rightarrow> Some (errors_Wrap err ''integration/mqtt: update authentication error'')
      | None \<Rightarrow> if failed (tokens w (requests w)) then Error (tokens w (requests w)) else None)"
  by (auto simp: connect_def Update_def paho_NewClient_def request_def Let_def split_beta emit_def
                 failed_def
           split: option.splits bool.splits)

lemma trace_connect:
  "trace (snd (connect w)) =
     trace w @
     (case auth_Update w (updates w) of
        Some err \<Rightarrow> [Lock, AuthUpdate, Unlock]
      | None \<Rightarrow> [Lock, AuthUpdate, NewClient (clients w), Connect (clients w), Unlock])"
  by (auto simp: connect_def Update_def paho_NewClient_def request_def Let_def split_beta emit_def
           split: option.splits bool.splits)

text \<open>Every call of \<^verbatim>\<open>connect\<close> calls \<^verbatim>\<open>b.auth.Update\<close> once, and does not sleep.\<close>

lemma connect_attempt:
  "\<exists>es. trace (snd (connect w)) = trace w @ es \<and> filter is_attempt es = [AuthUpdate]"
  by (cases "auth_Update w (updates w)") (simp_all add: trace_connect is_attempt_def)

lemma connect_retry_fields [simp]:
  "tokens (connect_retry w) = tokens w"
  "auth_Update (connect_retry w) = auth_Update w"
  "updates (connect_retry w) = Suc (updates w)"
  "terminateOnConnectError (bk (connect_retry w)) = terminateOnConnectError (bk w)"
  "requests (connect_retry w) = requests (snd (connect w))"
  "clients (connect_retry w) = clients (snd (connect w))"
  by (simp_all add: connect_retry_def split_beta split: option.splits)

lemma connect_retry_attempt:
  assumes "fst (connect w) \<noteq> None"
  shows "\<exists>es. trace (connect_retry w) = trace w @ es \<and>
              filter is_attempt es = [AuthUpdate, Sleep (Second * 2)]"
proof -
  from connect_attempt [of w] obtain es where
    e: "trace (snd (connect w)) = trace w @ es" "filter is_attempt es = [AuthUpdate]"
    by blast
  from assms obtain err where "fst (connect w) = Some err" by blast
  then have "trace (connect_retry w) =
     trace w @ (es @ [Log ErrorLevel [(''error'', FErr err)] ''integration/mqtt: connection error'',
                      Sleep (Second * 2)])"
    by (simp add: connect_retry_def split_beta e)
  moreover have "filter is_attempt
      (es @ [Log ErrorLevel [(''error'', FErr err)] ''integration/mqtt: connection error'',
             Sleep (Second * 2)]) = [AuthUpdate, Sleep (Second * 2)]"
    by (simp add: e) (simp add: is_attempt_def)
  ultimately show ?thesis by blast
qed

lemma connectLoop_failed:
  "fst (connect w) \<noteq> None \<Longrightarrow> \<not> terminateOnConnectError (bk w) \<Longrightarrow>
   connectLoop w = connectLoop (connect_retry w)"
  by (subst connectLoop.simps) (auto simp: connect_retry_def split_beta split: option.splits)

lemma connectLoop_connected:
  "fst (connect w) = None \<Longrightarrow> connectLoop w = Some (Return (), snd (connect w))"
  by (subst connectLoop.simps) (auto simp: split_beta split: option.splits)

lemma connectLoop_ends:
  assumes "\<not> terminateOnConnectError (bk w)"
    and "\<forall>i<k. fst (connect ((connect_retry ^^ i) w)) \<noteq> None"
    and "fst (connect ((connect_retry ^^ k) w)) = None"
  shows "connectLoop w = Some (Return (), snd (connect ((connect_retry ^^ k) w)))"
  using assms
proof (induction k arbitrary: w)
  case 0
  then show ?case by (simp add: connectLoop_connected)
next
  case (Suc k)
  from Suc.prems(2) have bad: "fst (connect w) \<noteq> None"
    by (metis funpow_0 zero_less_Suc)
  have p2: "\<forall>i<k. fst (connect ((connect_retry ^^ i) (connect_retry w))) \<noteq> None"
    using Suc.prems(2) by (metis Suc_less_eq funpow_Suc_right o_apply)
  have p3: "fst (connect ((connect_retry ^^ k) (connect_retry w))) = None"
    using Suc.prems(3) by (simp add: funpow_swap1)
  have p1: "\<not> terminateOnConnectError (bk (connect_retry w))"
    using Suc.prems(1) by simp
  from Suc.IH [OF p1 p2 p3] show ?case
    using bad Suc.prems(1) by (simp add: connectLoop_failed funpow_swap1)
qed

lemma retries_attempts:
  assumes "\<forall>i<k. fst (connect ((connect_retry ^^ i) w)) \<noteq> None"
  shows "\<exists>es. trace ((connect_retry ^^ k) w) = trace w @ es \<and>
              filter is_attempt es = concat (replicate k [AuthUpdate, Sleep (Second * 2)])"
  using assms
proof (induction k)
  case 0
  then show ?case by simp
next
  case (Suc k)
  then obtain es where
    e: "trace ((connect_retry ^^ k) w) = trace w @ es"
       "filter is_attempt es = concat (replicate k [AuthUpdate, Sleep (Second * 2)])"
    by auto
  from Suc.prems have "fst (connect ((connect_retry ^^ k) w)) \<noteq> None" by simp
  from connect_retry_attempt [OF this] obtain es' where
    e': "trace (connect_retry ((connect_retry ^^ k) w)) = trace ((connect_retry ^^ k) w) @ es'"
        "filter is_attempt es' = [AuthUpdate, Sleep (Second * 2)]"
    by blast
  have "concat (replicate k [AuthUpdate, Sleep (Second * 2)]) @ [AuthUpdate, Sleep (Second * 2)] =
        concat (replicate (Suc k) [AuthUpdate, Sleep (Second * 2)])"
    by (induction k) simp_all
  with e e' have "trace ((connect_retry ^^ Suc k) w) = trace w @ (es @ es') \<and>
      filter is_attempt (es @ es') = concat (replicate (Suc k) [AuthUpdate, Sleep (Second * 2)])"
    by simp
  then show ?case by blast
qed

lemma connectLoop_returns:
  assumes "connectLoop w = Some y"
  shows "\<not> terminateOnConnectError (bk w) \<longrightarrow>
         fst y = Return () \<and>
         (\<exists>k. (\<forall>i<k. fst (connect ((connect_retry ^^ i) w)) \<noteq> None) \<and>
              fst (connect ((connect_retry ^^ k) w)) = None \<and>
              snd y = snd (connect ((connect_retry ^^ k) w)))"
  using assms
proof (induction rule: connectLoop.raw_induct [rotated 1, consumes 1, case_names 1])
  case (1 f w y)
  show ?case
  proof (intro impI)
    assume nt: "\<not> terminateOnConnectError (bk w)"
    show "fst y = Return () \<and>
         (\<exists>k. (\<forall>i<k. fst (connect ((connect_retry ^^ i) w)) \<noteq> None) \<and>
              fst (connect ((connect_retry ^^ k) w)) = None \<and>
              snd y = snd (connect ((connect_retry ^^ k) w)))"
    proof (cases "fst (connect w)")
      case None
      with 1(2) have "y = (Return (), snd (connect w))"
        by (auto simp: split_beta)
      with None show ?thesis
        by (intro conjI exI [of _ 0]) simp_all
    next
      case (Some err)
      with 1(2) nt have "f (connect_retry w) = Some y"
        by (simp add: split_beta connect_retry_def)
      from 1(1) [OF this] nt obtain k where
        k: "fst y = Return ()" "\<forall>i<k. fst (connect ((connect_retry ^^ i) (connect_retry w))) \<noteq> None"
           "fst (connect ((connect_retry ^^ k) (connect_retry w))) = None"
           "snd y = snd (connect ((connect_retry ^^ k) (connect_retry w)))"
        by auto
      have "\<forall>i<Suc k. fst (connect ((connect_retry ^^ i) w)) \<noteq> None"
      proof (intro allI impI)
        fix i assume "i < Suc k"
        show "fst (connect ((connect_retry ^^ i) w)) \<noteq> None"
        proof (cases i)
          case 0
          with Some show ?thesis by simp
        next
          case (Suc j)
          with \<open>i < Suc k\<close> k(2) show ?thesis by (simp add: funpow_swap1)
        qed
      qed
      with k show ?thesis
        by (intro conjI exI [of _ "Suc k"]) (simp_all add: funpow_swap1)
    qed
  qed
qed

lemma trace_connect_retry:
  "trace (connect_retry w) =
     trace (snd (connect w)) @
     (case fst (connect w) of
        Some err \<Rightarrow> [Log ErrorLevel [(''error'', FErr err)] ''integration/mqtt: connection error'',
                     Sleep (Second * 2)]
      | None \<Rightarrow> [])"
  by (simp add: connect_retry_def split_beta split: option.splits)

text \<open>
  C5. With \<^verbatim>\<open>terminateOnConnectError\<close> off: when \<^verbatim>\<open>connect\<close> fails in the first
  \<open>k\<close> attempts and succeeds in the next, \<^verbatim>\<open>connectLoop\<close> returns the world of that
  successful attempt, having called \<^verbatim>\<open>connect\<close> exactly \<open>k + 1\<close> times with a sleep
  of two seconds after each failure, so between any two consecutive attempts; and whenever
  \<^verbatim>\<open>connectLoop\<close> ends, it returns, and it does so from an attempt that succeeded after
  attempts that all failed. For two failures that is three calls.
\<close>

theorem connectLoop_retries:
  assumes "\<not> terminateOnConnectError (bk w)"
  shows
    "((\<forall>i<k. fst (connect ((connect_retry ^^ i) w)) \<noteq> None) \<and>
      fst (connect ((connect_retry ^^ k) w)) = None \<longrightarrow>
        connectLoop w = Some (Return (), snd (connect ((connect_retry ^^ k) w))) \<and>
        filter is_attempt (since w (snd (connect ((connect_retry ^^ k) w)))) =
          concat (replicate k [AuthUpdate, Sleep (Second * 2)]) @ [AuthUpdate]) \<and>
     (connectLoop w = Some (r, w') \<longrightarrow>
        r = Return () \<and>
        (\<exists>k. (\<forall>i<k. fst (connect ((connect_retry ^^ i) w)) \<noteq> None) \<and>
             fst (connect ((connect_retry ^^ k) w)) = None \<and>
             w' = snd (connect ((connect_retry ^^ k) w))))"
proof (intro conjI impI)
  assume a: "(\<forall>i<k. fst (connect ((connect_retry ^^ i) w)) \<noteq> None) \<and>
      fst (connect ((connect_retry ^^ k) w)) = None"
  then show "connectLoop w = Some (Return (), snd (connect ((connect_retry ^^ k) w)))"
    using assms by (simp add: connectLoop_ends)
  from a retries_attempts [of k w] obtain es where
    e: "trace ((connect_retry ^^ k) w) = trace w @ es"
       "filter is_attempt es = concat (replicate k [AuthUpdate, Sleep (Second * 2)])"
    by blast
  from connect_attempt [of "(connect_retry ^^ k) w"] obtain es' where
    e': "trace (snd (connect ((connect_retry ^^ k) w))) = trace ((connect_retry ^^ k) w) @ es'"
        "filter is_attempt es' = [AuthUpdate]"
    by blast
  from e e' show "filter is_attempt (since w (snd (connect ((connect_retry ^^ k) w)))) =
          concat (replicate k [AuthUpdate, Sleep (Second * 2)]) @ [AuthUpdate]"
    by (simp add: since_def)
next
  assume "connectLoop w = Some (r, w')"
  from connectLoop_returns [OF this] assms
  show "r = Return ()"
    and "\<exists>k. (\<forall>i<k. fst (connect ((connect_retry ^^ i) w)) \<noteq> None) \<and>
             fst (connect ((connect_retry ^^ k) w)) = None \<and>
             w' = snd (connect ((connect_retry ^^ k) w))"
    by simp_all
qed

theorem connectLoop_retries_witness:
  "\<not> terminateOnConnectError (bk world1) \<and>
   fst (connect world1) = Some (errors_New ''not connected'') \<and>
   fst (connect (connect_retry world1)) = Some (errors_New ''not connected'') \<and>
   fst (connect (connect_retry (connect_retry world1))) = None \<and>
   connectLoop world1 = Some (Return (), snd (connect (connect_retry (connect_retry world1)))) \<and>
   filter is_attempt (since world1 (snd (connect (connect_retry (connect_retry world1))))) =
     [AuthUpdate, Sleep (Second * 2), AuthUpdate, Sleep (Second * 2), AuthUpdate] \<and>
   trace (snd (connect (connect_retry (connect_retry world1)))) =
     [Lock, AuthUpdate, NewClient 1, Connect 1, Unlock,
      Log ErrorLevel [(''error'', FErr (errors_New ''not connected''))]
        ''integration/mqtt: connection error'',
      Sleep (Second * 2),
      Lock, AuthUpdate, NewClient 2, Connect 2, Unlock,
      Log ErrorLevel [(''error'', FErr (errors_New ''not connected''))]
        ''integration/mqtt: connection error'',
      Sleep (Second * 2),
      Lock, AuthUpdate, NewClient 3, Connect 3, Unlock] \<and>
   (\<exists>k. (\<forall>i<k. fst (connect ((connect_retry ^^ i) world1)) \<noteq> None) \<and>
        fst (connect ((connect_retry ^^ k) world1)) = None \<and>
        snd (connect (connect_retry (connect_retry world1))) =
          snd (connect ((connect_retry ^^ k) world1)))"
proof -
  have nt: "\<not> terminateOnConnectError (bk world1)"
    by simp
  have c0: "fst (connect world1) = Some (errors_New ''not connected'')"
    and c1: "fst (connect (connect_retry world1)) = Some (errors_New ''not connected'')"
    and c2: "fst (connect (connect_retry (connect_retry world1))) = None"
    by (simp_all add: fst_connect)
  have f: "(connect_retry ^^ 2) world1 = connect_retry (connect_retry world1)"
    by (simp add: eval_nat_numeral)
  have h: "(\<forall>i<2. fst (connect ((connect_retry ^^ i) world1)) \<noteq> None) \<and>
      fst (connect ((connect_retry ^^ 2) world1)) = None"
    using c0 c1 c2 by (simp add: f less_Suc_eq eval_nat_numeral)
  from connectLoop_retries [OF nt, of 2] h
  have r: "connectLoop world1 = Some (Return (), snd (connect ((connect_retry ^^ 2) world1))) \<and>
        filter is_attempt (since world1 (snd (connect ((connect_retry ^^ 2) world1)))) =
          concat (replicate 2 [AuthUpdate, Sleep (Second * 2)]) @ [AuthUpdate]"
    by blast
  have t: "trace (snd (connect (connect_retry (connect_retry world1)))) =
     [Lock, AuthUpdate, NewClient 1, Connect 1, Unlock,
      Log ErrorLevel [(''error'', FErr (errors_New ''not connected''))]
        ''integration/mqtt: connection error'',
      Sleep (Second * 2),
      Lock, AuthUpdate, NewClient 2, Connect 2, Unlock,
      Log ErrorLevel [(''error'', FErr (errors_New ''not connected''))]
        ''integration/mqtt: connection error'',
      Sleep (Second * 2),
      Lock, AuthUpdate, NewClient 3, Connect 3, Unlock]"
    by (simp add: trace_connect trace_connect_retry fst_connect)
  from r have "connectLoop world1 =
      Some (Return (), snd (connect (connect_retry (connect_retry world1))))"
    by (simp add: f)
  with connectLoop_retries [OF nt, of _ "Return ()" "snd (connect (connect_retry (connect_retry world1)))"]
  have e: "\<exists>k. (\<forall>i<k. fst (connect ((connect_retry ^^ i) world1)) \<noteq> None) \<and>
        fst (connect ((connect_retry ^^ k) world1)) = None \<and>
        snd (connect (connect_retry (connect_retry world1))) =
          snd (connect ((connect_retry ^^ k) world1))"
    by blast
  from nt c0 c1 c2 r t e show ?thesis
    by (simp add: f eval_nat_numeral)
qed

subsection \<open>The forced-reconnect loop\<close>

lemma connect_bk:
  "closed (bk (snd (connect w))) = closed (bk w)"
  "ReconnectAfter (bk (snd (connect w))) = ReconnectAfter (bk w)"
  "conn (bk (snd (connect w))) =
     (if auth_Update w (updates w) = None then Some (clients w) else conn (bk w))"
  by (auto simp: connect_def Update_def paho_NewClient_def request_def Let_def split_beta emit_def
           split: option.splits bool.splits)

text \<open>
  The loop leaves at the check of \<^verbatim>\<open>b.closed\<close>, which stands before the sleep; with
  no reconnect interval it does nothing at all.
\<close>

lemma reconnectLoop_for_closed:
  "closed (bk w) \<Longrightarrow> reconnectLoop_for stops n w = Some (Return (), w)"
  by (subst reconnectLoop_for.simps) simp

lemma reconnectLoop_no_interval:
  "ReconnectAfter (bk w) \<le> 0 \<Longrightarrow> reconnectLoop stops w = Some (Return (), w)"
  by (simp add: reconnectLoop_def)

lemma reconnectLoop_closed:
  "closed (bk w) \<Longrightarrow> reconnectLoop stops w = Some (Return (), w)"
  by (simp add: reconnectLoop_def reconnectLoop_for_closed)

lemma rotating_world_simps [simp]:
  "bk rotating_world = backend0\<lparr>ReconnectAfter := 1800 * Second\<rparr>" "trace rotating_world = []"
  "tokens rotating_world n = ok_token" "requests rotating_world = 0"
  "auth_Update rotating_world n = None" "updates rotating_world = 0" "clients rotating_world = 1"
  by (simp_all add: rotating_world_def world0_def)

lemma Second_pos [simp]: "0 < Second"
  by (simp add: Second_def)

text \<open>
  C8. The claim does not hold of the code: \<^verbatim>\<open>b.closed\<close> is read before the sleep, not
  after it. When \<^verbatim>\<open>Stop\<close> runs while the loop sleeps (the entries \<open>Lock\<close>, \<open>Unlock\<close>,
  \<open>Disconnect 0 250\<close> after the sleep are \<^verbatim>\<open>Stop\<close>'s), the loop wakes, logs the
  re-connect, disconnects and connects a new client (client 1), and leaves only at the
  next check: the backend is closed and connected again.
\<close>

theorem reconnectLoop_after_Stop:
  "map_option (\<lambda>(r, w). (r, trace w, closed (bk w), conn (bk w)))
     (reconnectLoop (\<lambda>n. n = 0) rotating_world) =
   Some (Return (),
     [Sleep (1800 * Second),
      Lock, Unlock, Disconnect 0 250,
      Log InfoLevel [] ''mqtt: re-connect triggered'',
      CounterInc ''mqttReconnectCounter'' [],
      CounterInc ''mqttDisconnectCounter'' [],
      Lock, Disconnect 0 250, Unlock,
      Lock, AuthUpdate, NewClient 1, Connect 1, Unlock],
     True, Some 1)"
proof -
  let ?w1 = "snd (Stop (sleep (1800 * Second) rotating_world))"
  let ?w3 = "emit (CounterInc ''mqttReconnectCounter'' [])
               (logf InfoLevel [] ''mqtt: re-connect triggered'' ?w1)"
  let ?w4 = "snd (disconnect ?w3)"
  have s: "fst (Stop (sleep (1800 * Second) rotating_world)) = Return None"
    "trace ?w1 = [Sleep (1800 * Second), Lock, Unlock, Disconnect 0 250]"
    "closed (bk ?w1)" "conn (bk ?w1) = Some 0"
    "tokens ?w1 = tokens rotating_world" "requests ?w1 = 0"
    "auth_Update ?w1 = auth_Update rotating_world" "updates ?w1 = 0" "clients ?w1 = 1"
    by (simp_all add: Stop_def Let_def emit_def sleep_def)
  have d: "fst (disconnect ?w3) = Return None"
    "trace ?w4 = trace ?w1 @ [Log InfoLevel [] ''mqtt: re-connect triggered'',
       CounterInc ''mqttReconnectCounter'' [], CounterInc ''mqttDisconnectCounter'' [],
       Lock, Disconnect 0 250, Unlock]"
    "closed (bk ?w4)" "tokens ?w4 = tokens rotating_world" "requests ?w4 = 0"
    "auth_Update ?w4 = auth_Update rotating_world" "updates ?w4 = 0" "clients ?w4 = 1"
    by (simp_all add: disconnect_def Let_def s)
  have c: "fst (connect ?w4) = None"
    by (simp add: fst_connect d)
  then have l: "connectLoop ?w4 = Some (Return (), snd (connect ?w4))"
    by (rule connectLoop_connected)
  have e: "closed (bk (snd (connect ?w4)))" "conn (bk (snd (connect ?w4))) = Some 1"
    "trace (snd (connect ?w4)) = trace ?w4 @ [Lock, AuthUpdate, NewClient 1, Connect 1, Unlock]"
    by (simp_all add: connect_bk trace_connect d)
  have "reconnectLoop (\<lambda>n. n = 0) rotating_world = Some (Return (), snd (connect ?w4))"
    unfolding reconnectLoop_def
    apply (subst reconnectLoop_for.simps)
    apply (simp add: Let_def split_beta s d l reconnectLoop_for_closed e)
    done
  then show ?thesis
    by (simp add: e d s)
qed

subsection \<open>The lock\<close>

lemma PublishEvent_takes_no_lock:
  "filter is_lock (since w (snd (PublishEvent g ev uid v w))) = []"
  by (auto simp: PublishEvent_def publish_def Let_def since_def split_beta emit_def logf_def
                 request_def
           split: sum.splits option.splits bool.splits)

text \<open>
  C9. The claim does not hold of the code: \<^verbatim>\<open>PublishEvent\<close> reads \<^verbatim>\<open>b.conn\<close> and
  publishes on it without taking the lock in either mode, whatever its arguments, while
  \<^verbatim>\<open>disconnect\<close> holds the lock around the same handle; and \<^verbatim>\<open>Stop\<close> has released
  the lock when it disconnects.
\<close>

theorem PublishEvent_unlocked:
  "since world0 (snd (PublishEvent gw1 ''up'' [] [1] world0)) =
     [CounterInc ''mqttEventCounter'' ''up'',
      Log InfoLevel [(''uplink_id'', FBytes []), (''topic'', FStr ''gateway/id/event/up''),
                     (''qos'', FQos 0), (''event'', FStr ''up'')]
        ''integration/mqtt: publishing event'',
      Publish 0 ''gateway/id/event/up'' 0 False [1]] \<and>
   filter is_lock (since w (snd (PublishEvent g ev uid v w))) = [] \<and>
   since world0 (snd (disconnect world0)) =
     [CounterInc ''mqttDisconnectCounter'' [], Lock, Disconnect 0 250, Unlock] \<and>
   since world0 (snd (Stop world0)) = [Lock, Unlock, Disconnect 0 250]"
proof -
  have "since world0 (snd (PublishEvent gw1 ''up'' [] [1] world0)) =
     [CounterInc ''mqttEventCounter'' ''up'',
      Log InfoLevel [(''uplink_id'', FBytes []), (''topic'', FStr ''gateway/id/event/up''),
                     (''qos'', FQos 0), (''event'', FStr ''up'')]
        ''integration/mqtt: publishing event'',
      Publish 0 ''gateway/id/event/up'' 0 False [1]]"
    by (simp add: PublishEvent_def publish_def Let_def since_def split_beta gw1_def idPrefix_def
                  logf_def)
  moreover have "since world0 (snd (disconnect world0)) =
     [CounterInc ''mqttDisconnectCounter'' [], Lock, Disconnect 0 250, Unlock]"
    by (simp add: disconnect_def Let_def since_def)
  moreover have "since world0 (snd (Stop world0)) = [Lock, Unlock, Disconnect 0 250]"
    by (simp add: Stop_def Let_def since_def emit_def)
  ultimately show ?thesis
    by (simp add: PublishEvent_takes_no_lock)
qed

end
